(* ===== verification/JS_Prelude.thy ===== *)
theory JS_Prelude
  imports Main "HOL-Library.Code_Target_Numeral"
begin

text \<open>
  The JavaScript value model that every component of the SDK shares.
  \<^item> \<open>jsval\<close> is a JavaScript value. Objects are trees: an object kind (plain object,
    array, function with its identity) and its own enumerable data properties in creation
    order, as an association list. Arrays are objects whose elements sit under the index
    keys \<open>''0''\<close>, \<open>''1''\<close>, \<dots>, as in the language. Numbers are the integral
    numbers the SDK handles (status codes, identifiers); fractions and NaN are not modelled.
  \<^item> \<open>exn\<close> is a thrown value: \<open>new Error(msg)\<close>, a \<open>TypeError\<close> raised by the
    engine, or any other thrown value.
  \<^item> \<open>'a settled\<close> is what becomes of a promise: fulfilled, rejected, or never settled
    because an exception escaped from a callback into the event loop.
  The operations are the abstract operations of ECMAScript the sources rely on:
  ToBoolean (\<open>js_truthy\<close>), ToString (\<open>js_to_string\<close>), property lookup
  (\<open>js_get\<close>), \<open>hasOwnProperty\<close> (\<open>has_own\<close>), property assignment
  (\<open>obj_set\<close>), the property order of OrdinaryOwnPropertyKeys (\<open>own_keys\<close>), and
  object spread \<open>{...v}\<close> (\<open>spread_props\<close>, \<open>obj_assign\<close>).
\<close>

named_theorems js_obj "equations of the object model used to evaluate property operations"

section \<open>Values, exceptions, promise outcomes\<close>

datatype objkind = KPlain | KArray | KFunction string

datatype jsval =
    JUndef
  | JNull
  | JBool bool
  | JNum int
  | JStr string
  | JObj objkind "(string \<times> jsval) list"

type_synonym props = "(string \<times> jsval) list"

datatype exn = Error string | TypeError string | Raised jsval

datatype 'a settled = Fulfilled 'a | Rejected exn | Escaped exn

text \<open>ToBoolean: the falsy values are \<open>undefined\<close>, \<open>null\<close>, \<open>false\<close>, \<open>0\<close> and
  the empty string; every object is truthy.\<close>

fun js_truthy :: "jsval \<Rightarrow> bool" where
  "js_truthy JUndef = False"
| "js_truthy JNull = False"
| "js_truthy (JBool b) = b"
| "js_truthy (JNum n) = (n \<noteq> 0)"
| "js_truthy (JStr s) = (s \<noteq> [])"
| "js_truthy (JObj k ps) = True"

text \<open>The operator \<open>a || b\<close>: \<open>a\<close> when it is truthy, otherwise \<open>b\<close>.\<close>

definition js_or :: "jsval \<Rightarrow> jsval \<Rightarrow> jsval" where
  "js_or a b = (if js_truthy a then a else b)"

text \<open>IsCallable: the functions of the program are the objects of function kind.\<close>

definition js_callable :: "jsval \<Rightarrow> bool" where
  "js_callable v = (case v of JObj (KFunction f) ps \<Rightarrow> True | _ \<Rightarrow> False)"

section \<open>Decimal numerals and array indices\<close>

definition digit_char :: "nat \<Rightarrow> char" where
  "digit_char d = char_of (48 + d)"

fun nat_str :: "nat \<Rightarrow> string" where
  "nat_str n = (if n < 10 then [digit_char n] else nat_str (n div 10) @ [digit_char (n mod 10)])"

declare nat_str.simps [simp del]

definition int_str :: "int \<Rightarrow> string" where
  "int_str i = (if i < 0 then CHR ''-'' # nat_str (nat (- i)) else nat_str (nat i))"

definition is_digit :: "char \<Rightarrow> bool" where
  "is_digit c \<longleftrightarrow> (48::nat) \<le> of_char c \<and> of_char c \<le> (57::nat)"

definition digit_val :: "char \<Rightarrow> nat" where
  "digit_val c = of_char c - 48"

definition digits_val :: "string \<Rightarrow> nat" where
  "digits_val s = foldl (\<lambda>acc c. 10 * acc + digit_val c) 0 s"

text \<open>An array index is the canonical decimal numeral of a number below
  \<open>2\<^sup>3\<^sup>2 - 1\<close> (ECMAScript: \<open>ToString(ToUint32(P)) = P\<close> and
  \<open>ToUint32(P) \<noteq> 2\<^sup>3\<^sup>2 - 1\<close>).\<close>

definition max_index :: nat where
  "max_index = 4294967295"

definition canonical_index :: "string \<Rightarrow> nat option" where
  "canonical_index s =
     (if s \<noteq> [] \<and> list_all is_digit s \<and> (hd s = CHR ''0'' \<longrightarrow> s = ''0'') \<and> digits_val s < max_index
      then Some (digits_val s) else None)"

definition is_index :: "string \<Rightarrow> bool" where
  "is_index k \<longleftrightarrow> canonical_index k \<noteq> None"

definition index_key :: "string \<Rightarrow> nat" where
  "index_key k = (case canonical_index k of Some n \<Rightarrow> n | None \<Rightarrow> 0)"

section \<open>Objects as property lists\<close>

text \<open>Assignment \<open>o[k] = v\<close> on an ordinary object: an existing property keeps its
  position and takes the new value, a new one is appended (CreateDataProperty).\<close>

fun obj_set :: "props \<Rightarrow> string \<Rightarrow> jsval \<Rightarrow> props" where
  "obj_set [] k v = [(k, v)]"
| "obj_set ((k', v') # ps) k v = (if k' = k then (k, v) # ps else (k', v') # obj_set ps k v)"

definition prop_get :: "props \<Rightarrow> string \<Rightarrow> jsval" where
  "prop_get ps k = (case map_of ps k of None \<Rightarrow> JUndef | Some v \<Rightarrow> v)"

text \<open>The length of an array: one more than its greatest index key.\<close>

definition array_length :: "props \<Rightarrow> nat" where
  "array_length ps =
     foldr (\<lambda>k m. case canonical_index k of Some i \<Rightarrow> max (Suc i) m | None \<Rightarrow> m) (map fst ps) 0"

text \<open>OrdinaryOwnPropertyKeys: the array-index keys in ascending numeric order, then the
  other string keys in creation order.\<close>

definition own_keys :: "props \<Rightarrow> string list" where
  "own_keys ps =
     (let ks = map fst ps in sort_key index_key (filter is_index ks) @ filter (\<lambda>k. \<not> is_index k) ks)"

text \<open>Property lookup \<open>v[k]\<close> for a value whose lookup does not throw. Inherited
  properties of the built-in prototypes are not modelled: none of the keys the sources
  read (\<open>method\<close>, \<open>payload\<close>, \<open>successCode\<close>, \<dots>) is defined there.\<close>

fun js_get :: "jsval \<Rightarrow> string \<Rightarrow> jsval" where
  "js_get (JObj KArray ps) k = (if k = ''length'' then JNum (int (array_length ps)) else prop_get ps k)"
| "js_get (JObj kd ps) k = prop_get ps k"
| "js_get (JStr s) k =
     (if k = ''length'' then JNum (int (length s))
      else case canonical_index k of
             Some i \<Rightarrow> (if i < length s then JStr [s ! i] else JUndef)
           | None \<Rightarrow> JUndef)"
| "js_get v k = JUndef"

text \<open>\<open>Object.prototype.hasOwnProperty\<close> on a value that is not \<open>undefined\<close> or
  \<open>null\<close> (on those it throws; the callers check that first). Arrays and strings own
  their \<open>length\<close>, strings their indices.\<close>

fun has_own :: "jsval \<Rightarrow> string \<Rightarrow> bool" where
  "has_own (JObj KArray ps) k = (k = ''length'' \<or> k \<in> set (map fst ps))"
| "has_own (JObj kd ps) k = (k \<in> set (map fst ps))"
| "has_own (JStr s) k =
     (k = ''length'' \<or> (case canonical_index k of Some i \<Rightarrow> i < length s | None \<Rightarrow> False))"
| "has_own v k = False"

text \<open>The own enumerable properties that \<open>{...v}\<close> copies (CopyDataProperties):
  none for \<open>undefined\<close>, \<open>null\<close>, booleans and numbers, the characters of a string
  under their indices, the own properties of an object in OrdinaryOwnPropertyKeys
  order.\<close>

fun spread_props :: "jsval \<Rightarrow> props" where
  "spread_props (JObj kd ps) = map (\<lambda>k. (k, prop_get ps k)) (own_keys ps)"
| "spread_props (JStr s) = map (\<lambda>(i, c). (nat_str i, JStr [c])) (enumerate 0 s)"
| "spread_props v = []"

text \<open>An object literal built from the properties \<open>ps\<close> and then the properties
  \<open>qs\<close>, in order: later definitions of a key overwrite earlier ones in place.\<close>

definition obj_assign :: "props \<Rightarrow> props \<Rightarrow> props" where
  "obj_assign ps qs = foldl (\<lambda>acc (k, v). obj_set acc k v) ps qs"

section \<open>ToString\<close>

text \<open>\<open>Array.prototype.join\<close> with a separator.\<close>

fun join_with :: "string \<Rightarrow> string list \<Rightarrow> string" where
  "join_with sep [] = []"
| "join_with sep [s] = s"
| "join_with sep (s # ss) = s @ sep @ join_with sep ss"

text \<open>ToString of a plain object is \<open>''[object Object]''\<close> (no own \<open>toString\<close>
  is modelled), of an array the comma-joined strings of its elements with
  \<open>undefined\<close> and \<open>null\<close> as the empty string, of a function its source text, which
  the model identifies with the function's name.\<close>

fun js_to_string :: "jsval \<Rightarrow> string" where
  "js_to_string JUndef = ''undefined''"
| "js_to_string JNull = ''null''"
| "js_to_string (JBool b) = (if b then ''true'' else ''false'')"
| "js_to_string (JNum n) = int_str n"
| "js_to_string (JStr s) = s"
| "js_to_string (JObj KPlain ps) = ''[object Object]''"
| "js_to_string (JObj (KFunction f) ps) = ''function '' @ f"
| "js_to_string (JObj KArray ps) =
     (let strs = map (\<lambda>(k, v). (k, if v = JUndef \<or> v = JNull then [] else js_to_string v)) ps
      in join_with '','' (map (\<lambda>i. case map_of strs (nat_str i) of None \<Rightarrow> [] | Some s \<Rightarrow> s)
                                [0..<array_length ps]))"

section \<open>Shared lemmas on objects and numerals\<close>

text \<open>Assignment, object literals and spread seen through \<open>map_of\<close>; the key
  sets they produce; the decimal numeral of a number read back as an array index.\<close>

lemma map_of_obj_set [simp, js_obj]: "map_of (obj_set ps k v) = (map_of ps)(k \<mapsto> v)"
  by (induction ps) (auto simp: fun_eq_iff)

lemma keys_obj_set [simp]: "fst ` set (obj_set ps k v) = insert k (fst ` set ps)"
  by (induction ps) force+

lemma list_all_obj_set [intro]: "P (k, v) \<Longrightarrow> list_all P ps \<Longrightarrow> list_all P (obj_set ps k v)"
  by (induction ps) auto

lemma distinct_obj_set [simp]: "distinct (map fst ps) \<Longrightarrow> distinct (map fst (obj_set ps k v))"
  by (induction ps) auto

lemma obj_set_existing: "k \<in> set (map fst ps) \<Longrightarrow> map fst (obj_set ps k v) = map fst ps"
  by (induction ps) force+

lemma prop_get_obj_set [simp, js_obj]: "prop_get (obj_set ps k v) k' = (if k' = k then v else prop_get ps k')"
  by (simp add: prop_get_def)

lemma map_of_obj_assign [js_obj]: "map_of (obj_assign ps qs) = map_of ps ++ map_of (rev qs)"
proof (induction qs arbitrary: ps)
  case Nil
  then show ?case by (simp add: obj_assign_def)
next
  case (Cons q qs)
  then show ?case
    by (cases q) (simp add: obj_assign_def map_add_def fun_eq_iff split: option.splits)
qed

lemma distinct_obj_assign: "distinct (map fst ps) \<Longrightarrow> distinct (map fst (obj_assign ps qs))"
  unfolding obj_assign_def by (induction qs arbitrary: ps) (auto split: prod.splits)

lemma list_all_obj_assign [intro]: "list_all P ps \<Longrightarrow> list_all P qs \<Longrightarrow> list_all P (obj_assign ps qs)"
  unfolding obj_assign_def by (induction qs arbitrary: ps) (auto split: prod.splits)

lemma keys_obj_assign: "set (map fst (obj_assign ps qs)) = set (map fst ps) \<union> set (map fst qs)"
proof (induction qs arbitrary: ps)
  case (Cons q qs)
  then show ?case
    using keys_obj_set [of ps "fst q" "snd q"] by (simp add: obj_assign_def split_beta)
qed (simp add: obj_assign_def)

lemma set_own_keys [simp]: "set (own_keys ps) = set (map fst ps)"
  by (auto simp: own_keys_def Let_def)

lemma map_of_map_keys: "map_of (map (\<lambda>k. (k, f k)) ks) k = (if k \<in> set ks then Some (f k) else None)"
  by (induction ks) auto

lemma map_of_spread_obj [js_obj]: "map_of (spread_props (JObj kd ps)) = map_of ps"
proof
  fix k
  show "map_of (spread_props (JObj kd ps)) k = map_of ps k"
    by (cases "map_of ps k")
       (auto simp: map_of_map_keys prop_get_def weak_map_of_SomeI dest: map_of_SomeD
             simp flip: map_of_eq_None_iff)
qed

lemma digit_char_props:
  assumes "d < 10"
  shows "is_digit (digit_char d)" and "digit_val (digit_char d) = d"
  using assms by (simp_all add: digit_char_def is_digit_def digit_val_def)

lemma nat_str_nonempty: "nat_str n \<noteq> []"
  by (subst nat_str.simps) simp

lemma nat_str_digits: "list_all is_digit (nat_str n) \<and> digits_val (nat_str n) = n"
proof (induction n rule: nat_str.induct)
  case (1 n)
  show ?case
  proof (cases "n < 10")
    case True
    then show ?thesis by (simp add: nat_str.simps [of n] digit_char_props digits_val_def)
  next
    case False
    with "1.IH" show ?thesis
      by (simp add: nat_str.simps [of n] digit_char_props digits_val_def)
  qed
qed

lemma nat_str_hd: "hd (nat_str n) = CHR ''0'' \<Longrightarrow> n = 0"
proof (induction n rule: nat_str.induct)
  case (1 n)
  show ?case
  proof (cases "n < 10")
    case True
    with "1.prems" have "digit_char n = CHR ''0''" by (simp add: nat_str.simps)
    then have "of_char (digit_char n) = (of_char (CHR ''0'') :: nat)" by simp
    with True show ?thesis by (simp add: digit_char_def)
  next
    case False
    with "1.prems" have "hd (nat_str (n div 10)) = CHR ''0''"
      by (simp add: nat_str.simps [of n] nat_str_nonempty)
    with False "1.IH" show ?thesis by simp
  qed
qed

lemma canonical_index_nat_str: "n < max_index \<Longrightarrow> canonical_index (nat_str n) = Some n"
  using nat_str_digits [of n] nat_str_hd [of n]
  by (auto simp: canonical_index_def nat_str_nonempty nat_str.simps [of 0] digit_char_def)

lemma map_fst_obj_set:
  "map fst (obj_set ps k v) = (if k \<in> fst ` set ps then map fst ps else map fst ps @ [k])"
  by (induction ps) force+

lemma array_length_obj_set_other:
  "canonical_index k = None \<Longrightarrow> array_length (obj_set ps k v) = array_length ps"
  by (simp add: array_length_def map_fst_obj_set)

lemma js_get_obj_set_other [js_obj]:
  "k \<noteq> k' \<Longrightarrow> canonical_index k' = None \<Longrightarrow>
   js_get (JObj kd (obj_set ps k' v)) k = js_get (JObj kd ps) k"
  by (cases kd) (simp_all add: array_length_obj_set_other)

lemma has_own_obj [simp, js_obj]:
  "k \<noteq> ''length'' \<Longrightarrow> has_own (JObj kd ps) k \<longleftrightarrow> k \<in> fst ` set ps"
  by (cases kd) auto

end
