(* ===== verification/JS_String.thy ===== *)
theory JS_String
  imports JS_Prelude
begin

text \<open>
  The built-in string operations of ECMAScript that the SDK calls, on strings of
  code units. A code unit is modelled by a \<open>char\<close>, read as a Latin-1 code unit
  (U+0000 to U+00FF); code units beyond U+00FF are not modelled.
  \<^item> \<open>index_of\<close>: \<open>String.prototype.indexOf\<close> from position 0;
  \<^item> \<open>js_replace\<close>, \<open>get_substitution\<close>, \<open>str_replace\<close>:
    \<open>String.prototype.replace\<close> with a string pattern, which replaces the first
    occurrence only and expands the patterns \<open>$$\<close>, \<open>$&\<close>, \<open>$`\<close> and \<open>$'\<close> of a
    string replacement, or calls a replacement function;
  \<^item> \<open>js_trim\<close>, \<open>js_lower\<close>: \<open>trim\<close> and \<open>toLowerCase\<close>;
  \<^item> \<open>replace_amp\<close>, \<open>replace_non_alnum\<close>: the global regular-expression replacements
    \<open>/\&/g\<close> and \<open>/[^a-zA-Z0-9]/g\<close>.
\<close>

section \<open>Searching\<close>

fun starts_with :: "string \<Rightarrow> string \<Rightarrow> bool" where
  "starts_with [] s = True"
| "starts_with (p # ps) [] = False"
| "starts_with (p # ps) (c # cs) = (p = c \<and> starts_with ps cs)"

fun index_of :: "string \<Rightarrow> string \<Rightarrow> nat option" where
  "index_of pat [] = (if pat = [] then Some 0 else None)"
| "index_of pat (c # cs) = (if starts_with pat (c # cs) then Some 0 else map_option Suc (index_of pat cs))"

section \<open>Replacing\<close>

text \<open>GetSubstitution for a string pattern (no capture groups): \<open>m\<close> is the matched
  text, \<open>pre\<close> and \<open>post\<close> the text before and after the match. Every other
  \<open>$\<close> sequence, \<open>$1\<close> or \<open>$<\<close> included, stays literal.\<close>

fun get_substitution :: "string \<Rightarrow> string \<Rightarrow> string \<Rightarrow> string \<Rightarrow> string" where
  "get_substitution m pre post [] = []"
| "get_substitution m pre post [c] = [c]"
| "get_substitution m pre post (c # d # r) =
     (if c = CHR ''$'' then
        (if d = CHR ''$'' then CHR ''$'' # get_substitution m pre post r
         else if d = CHR ''&'' then m @ get_substitution m pre post r
         else if d = CHR ''`'' then pre @ get_substitution m pre post r
         else if d = CHR 0x27 then post @ get_substitution m pre post r
         else c # get_substitution m pre post (d # r))
      else c # get_substitution m pre post (d # r))"

text \<open>\<open>s.replace(pat, rep)\<close> with a string replacement.\<close>

definition js_replace :: "string \<Rightarrow> string \<Rightarrow> string \<Rightarrow> string" where
  "js_replace s pat rep =
     (case index_of pat s of
        None \<Rightarrow> s
      | Some i \<Rightarrow>
          (let pre = take i s; post = drop (i + length pat) s
           in pre @ get_substitution pat pre post rep @ post))"

text \<open>\<open>s.replace(pat, v)\<close> for any value \<open>v\<close>: a function is called with the match,
  its position and the whole string, and the string of its result is inserted; any other
  value is converted by ToString and expanded by GetSubstitution. \<open>call\<close> gives the
  behaviour of the functions of the program by their names.\<close>

definition str_replace ::
  "(string \<Rightarrow> jsval list \<Rightarrow> exn + jsval) \<Rightarrow> string \<Rightarrow> string \<Rightarrow> jsval \<Rightarrow> exn + string" where
  "str_replace call s pat rv =
     (case rv of
        JObj (KFunction f) fps \<Rightarrow>
          (case index_of pat s of
             None \<Rightarrow> Inr s
           | Some i \<Rightarrow>
               (case call f [JStr pat, JNum (int i), JStr s] of
                  Inl e \<Rightarrow> Inl e
                | Inr r \<Rightarrow> Inr (take i s @ js_to_string r @ drop (i + length pat) s)))
      | _ \<Rightarrow> Inr (js_replace s pat (js_to_string rv)))"

section \<open>Case, white space, character classes\<close>

text \<open>WhiteSpace and LineTerminator code units of Latin-1: TAB, LF, VT, FF, CR, SPACE
  and NO-BREAK SPACE.\<close>

definition is_js_space :: "char \<Rightarrow> bool" where
  "is_js_space c \<longleftrightarrow> of_char c \<in> {9, 10, 11, 12, 13, 32, 160 :: nat}"

definition js_trim :: "string \<Rightarrow> string" where
  "js_trim s = rev (dropWhile is_js_space (rev (dropWhile is_js_space s)))"

text \<open>\<open>toLowerCase\<close> on Latin-1: A to Z and the capitals U+00C0 to U+00DE but for the
  multiplication sign U+00D7 move down by 32; every other Latin-1 code unit is its own
  lower case. No Latin-1 code unit changes the length of the string.\<close>

definition js_lower_char :: "char \<Rightarrow> char" where
  "js_lower_char c =
     (let n = (of_char c :: nat)
      in if (65 \<le> n \<and> n \<le> 90) \<or> (192 \<le> n \<and> n \<le> 222 \<and> n \<noteq> 215) then char_of (n + 32) else c)"

definition js_lower :: "string \<Rightarrow> string" where
  "js_lower s = map js_lower_char s"

definition is_ascii_alnum :: "char \<Rightarrow> bool" where
  "is_ascii_alnum c \<longleftrightarrow>
     (let n = (of_char c :: nat) in (48 \<le> n \<and> n \<le> 57) \<or> (65 \<le> n \<and> n \<le> 90) \<or> (97 \<le> n \<and> n \<le> 122))"

text \<open>\<open>s.replace(/\&/g, "and")\<close>.\<close>

definition replace_amp :: "string \<Rightarrow> string" where
  "replace_amp s = concat (map (\<lambda>c. if c = CHR ''&'' then ''and'' else [c]) s)"

text \<open>\<open>s.replace(/[^a-zA-Z0-9]/g, "-")\<close>.\<close>

definition replace_non_alnum :: "string \<Rightarrow> string" where
  "replace_non_alnum s = map (\<lambda>c. if is_ascii_alnum c then c else CHR ''-'') s"

section \<open>Lemmas\<close>

text \<open>\<open>index_of\<close> finds the first occurrence; a replacement without \<open>$\<close> is
  inserted literally at the first occurrence, and nothing changes without one.\<close>

lemma starts_with_iff: "starts_with p s \<longleftrightarrow> take (length p) s = p"
  by (induction p s rule: starts_with.induct) auto

lemma index_of_Some_iff:
  "index_of pat s = Some i \<longleftrightarrow>
     i \<le> length s \<and> starts_with pat (drop i s) \<and> (\<forall>j < i. \<not> starts_with pat (drop j s))"
proof (induction pat s arbitrary: i rule: index_of.induct)
  case (1 pat)
  then show ?case by (cases pat) auto
next
  case (2 pat c cs)
  show ?case
  proof (cases "starts_with pat (c # cs)")
    case True
    then show ?thesis by auto
  next
    case False
    have shift: "(\<forall>j < Suc k. \<not> starts_with pat (drop j (c # cs))) \<longleftrightarrow>
                 (\<forall>j < k. \<not> starts_with pat (drop j cs))" for k
      using False by (auto simp: less_Suc_eq_0_disj)
    show ?thesis
    proof (cases i)
      case 0
      with False show ?thesis by auto
    next
      case (Suc k)
      with False "2.IH" [of k] shift [of k] show ?thesis by auto
    qed
  qed
qed

lemma all_le_Suc: "(\<forall>j \<le> Suc n. P j) \<longleftrightarrow> P 0 \<and> (\<forall>j \<le> n. P (Suc j))"
  by (auto simp: less_Suc_eq_0_disj simp flip: less_Suc_eq_le)

lemma index_of_None_iff:
  "index_of pat s = None \<longleftrightarrow> (\<forall>j \<le> length s. \<not> starts_with pat (drop j s))"
proof (induction pat s rule: index_of.induct)
  case (1 pat)
  then show ?case by (cases pat) auto
next
  case (2 pat c cs)
  then show ?case by (simp add: all_le_Suc)
qed

lemma starts_with_self [simp]: "starts_with p (p @ r)"
  by (induction p) auto

lemma index_of_after:
  assumes "k \<noteq> []" and "hd k \<notin> set P"
  shows "index_of k (P @ k @ r) = Some (length P)"
  using assms(2)
proof (induction P)
  case Nil
  from assms(1) obtain c k' where "k = c # k'" by (cases k) auto
  then show ?case by simp
next
  case (Cons p P)
  from assms(1) obtain c k' where k: "k = c # k'" by (cases k) auto
  with Cons show ?case by simp
qed

lemma get_substitution_no_dollar:
  "CHR ''$'' \<notin> set r \<Longrightarrow> get_substitution m pre post r = r"
  by (induction m pre post r rule: get_substitution.induct) auto

lemma js_replace_absent: "index_of pat s = None \<Longrightarrow> js_replace s pat rep = s"
  by (simp add: js_replace_def)

lemma js_replace_first:
  assumes "index_of pat s = Some i" and "CHR ''$'' \<notin> set rep"
  shows "js_replace s pat rep = take i s @ rep @ drop (i + length pat) s"
  using assms by (simp add: js_replace_def get_substitution_no_dollar)

lemma str_replace_plain:
  "(\<And>f fps. rv \<noteq> JObj (KFunction f) fps) \<Longrightarrow> str_replace call s pat rv = Inr (js_replace s pat (js_to_string rv))"
  by (cases rv) (auto simp: str_replace_def split: objkind.splits)

lemma length_js_lower [simp]: "length (js_lower s) = length s"
  by (simp add: js_lower_def)

end
