(* ===== verification/Service.thy ===== *)
theory Service
  imports JS_String
begin

text \<open>
  The request dispatcher \<open>Service\<close> of \<open>src/src/services/service.js\<close>.
  \<^item> \<open>service\<close> is the object a constructor call builds: \<open>baseAPI\<close>, \<open>token\<close>
    and \<open>cookieName\<close>; \<open>Service_new\<close> is the constructor with its two guards.
  \<^item> \<open>interpolate\<close> is the method of the same name: one \<open>String.prototype.replace\<close>
    per enumerable key of the replacement object, in for-in order.
  \<^item> \<open>getRequest\<close>, \<open>deleteRequest\<close>, \<open>putRequest\<close>, \<open>postRequest\<close>,
    \<open>patchRequest\<close> are the verb methods, all \<open>verb_request\<close> with the verb and its
    default \<open>successCode\<close>; they return the caller's \<open>params\<close> value after the call,
    since the method writes the default into the caller's object.
  \<^item> \<open>request\<close> builds the options of the \<open>request\<close> library (\<open>build_opts\<close>),
    makes the one network call and turns the response into the enriched body
    (\<open>enrich\<close>, \<open>respond\<close>).
  What the program takes from its environment is a record \<open>'s env\<close>: the process
  environment, the \<open>cookie.serialize\<close> function of the \<open>cookie\<close> library, the
  functions of the caller by name, and the transport of the \<open>request\<close> library with a
  server state \<open>'s\<close>. The network is a record \<open>'s net\<close> of that server state and the
  list of option objects sent so far, so that the calls a method makes can be counted.
\<close>

section \<open>Environment and network\<close>

text \<open>The option object handed to the \<open>request\<close> library
  (\<open>service.js\<close>, lines 91 to 115).\<close>

record opts =
  o_method :: jsval
  o_uri :: string
  o_json :: bool
  o_headers :: props
  o_bearer :: jsval
  o_formData :: "jsval option"
  o_body :: "jsval option"

text \<open>A completed HTTP exchange: the status code and the body as the library parsed it.\<close>

record response =
  r_status :: int
  r_body :: jsval

type_synonym 's transport = "'s \<Rightarrow> opts \<Rightarrow> 's \<times> (exn + response)"

record 's env =
  process_env :: "string \<Rightarrow> string option"
  cookie_serialize :: "jsval \<Rightarrow> jsval \<Rightarrow> exn + string"
  call_fun :: "string \<Rightarrow> jsval list \<Rightarrow> exn + jsval"
  transport :: "'s transport"

record 's net =
  server :: 's
  sent :: "opts list"

text \<open>\<open>process.env.NAME\<close>: a string or \<open>undefined\<close>.\<close>

definition env_val :: "'s env \<Rightarrow> string \<Rightarrow> jsval" where
  "env_val E name = (case process_env E name of Some v \<Rightarrow> JStr v | None \<Rightarrow> JUndef)"

section \<open>The dispatcher\<close>

record service =
  baseAPI :: jsval
  token :: jsval
  cookieName :: jsval

definition Service_new :: "'s env \<Rightarrow> jsval \<Rightarrow> jsval \<Rightarrow> exn + service" where
  "Service_new E b t =
     (if \<not> js_truthy b then
        Inl (Error ''SDK:Service:constructor() missing required `baseAPI` argument on instantiation'')
      else if \<not> js_truthy t then
        Inl (Error ''SDK:Service:constructor() missing required `token` argument on instantiation. All API requests have to be authenticated'')
      else Inr \<lparr>baseAPI = b, token = t, cookieName = js_or (env_val E ''COOKIE'') (JStr ''APP_SID'')\<rparr>)"

subsection \<open>interpolate\<close>

text \<open>The keys a \<open>for (const key in v)\<close> loop visits: the own enumerable keys, in
  OrdinaryOwnPropertyKeys order (none for \<open>undefined\<close> and \<open>null\<close>).\<close>

definition forin_keys :: "jsval \<Rightarrow> string list" where
  "forin_keys v = map fst (spread_props v)"

fun interpolate_loop :: "'s env \<Rightarrow> string \<Rightarrow> jsval \<Rightarrow> string list \<Rightarrow> exn + string" where
  "interpolate_loop E url repl [] = Inr url"
| "interpolate_loop E url repl (k # ks) =
     (case str_replace (call_fun E) url k (js_get repl k) of
        Inl e \<Rightarrow> Inl e
      | Inr url' \<Rightarrow> interpolate_loop E url' repl ks)"

definition interpolate :: "'s env \<Rightarrow> string \<Rightarrow> jsval \<Rightarrow> exn + string" where
  "interpolate E url repl = interpolate_loop E url repl (forin_keys repl)"

text \<open>A reference for \<open>interpolate\<close>: a template of literal text and placeholders,
  \<open>pre @ k1 @ s1 @ k2 @ s2 @ ...\<close>, the replacement object \<open>{k1: v1, k2: v2, ...}\<close>
  in the same order, and the template filled with the values in place of the
  placeholders.\<close>

definition interp_template :: "string \<Rightarrow> (string \<times> string \<times> string) list \<Rightarrow> string" where
  "interp_template pre segs = pre @ concat (map (\<lambda>(k, v, s). k @ s) segs)"

definition interp_fill :: "string \<Rightarrow> (string \<times> string \<times> string) list \<Rightarrow> string" where
  "interp_fill pre segs = pre @ concat (map (\<lambda>(k, v, s). v @ s) segs)"

definition interp_repl :: "(string \<times> string \<times> string) list \<Rightarrow> jsval" where
  "interp_repl segs = JObj KPlain (map (\<lambda>(k, v, s). (k, JStr v)) segs)"

subsection \<open>request\<close>

definition base_opts :: "service \<Rightarrow> jsval \<Rightarrow> jsval \<Rightarrow> opts" where
  "base_opts svc uri params =
     \<lparr>o_method = js_get params ''method'',
      o_uri = js_to_string (baseAPI svc) @ js_to_string uri,
      o_json = True, o_headers = [], o_bearer = token svc,
      o_formData = None, o_body = None\<rparr>"

definition add_xauth :: "service \<Rightarrow> jsval \<Rightarrow> opts \<Rightarrow> opts" where
  "add_xauth svc params req =
     (if js_truthy (js_get params ''usesXAuthHeader'')
      then req\<lparr>o_headers := obj_set (o_headers req) ''X-Auth'' (token svc)\<rparr> else req)"

definition add_payload :: "jsval \<Rightarrow> opts \<Rightarrow> opts" where
  "add_payload params req =
     (let p = js_get params ''payload'' in
      if js_truthy p then
        (if js_truthy (js_get params ''isFormData'') then req\<lparr>o_formData := Some p\<rparr>
         else req\<lparr>o_body := Some p\<rparr>)
      else req)"

definition build_opts :: "'s env \<Rightarrow> service \<Rightarrow> jsval \<Rightarrow> jsval \<Rightarrow> exn + opts" where
  "build_opts E svc uri params =
     (let req = base_opts svc uri params in
      if js_truthy (js_get params ''usesCookieAuth'') then
        (case cookie_serialize E (cookieName svc) (token svc) of
           Inl e \<Rightarrow> Inl e
         | Inr c \<Rightarrow>
             Inr (add_payload params
                    (add_xauth svc params (req\<lparr>o_headers := obj_set (o_headers req) ''Cookie'' (JStr c)\<rparr>))))
      else Inr (add_payload params (add_xauth svc params req)))"

text \<open>\<open>{ statusCode: response.statusCode, ...body }\<close>\<close>

definition enrich :: "int \<Rightarrow> jsval \<Rightarrow> jsval" where
  "enrich status body = JObj KPlain (obj_assign [(''statusCode'', JNum status)] (spread_props body))"

text \<open>The callback's success branch: the formatter, when \<open>params.responseFormatter\<close>
  is truthy, is called on the enriched body. An exception it throws, or the
  \<open>TypeError\<close> of calling a value that is not a function, is thrown inside the
  callback of the \<open>request\<close> library, outside the promise: it escapes, and the
  promise never settles.\<close>

definition respond :: "'s env \<Rightarrow> jsval \<Rightarrow> jsval \<Rightarrow> jsval settled" where
  "respond E params body =
     (let f = js_get params ''responseFormatter'' in
      if js_truthy f then
        (case f of
           JObj (KFunction g) fps \<Rightarrow>
             (case call_fun E g [body] of Inl e \<Rightarrow> Escaped e | Inr v \<Rightarrow> Fulfilled v)
         | _ \<Rightarrow> Escaped (TypeError ''params.responseFormatter is not a function''))
      else Fulfilled body)"

text \<open>The promise executor: reading \<open>params.method\<close> throws on \<open>undefined\<close> and
  \<open>null\<close>, \<open>cookie.serialize\<close> may throw, and a throw in the executor rejects the
  promise before any call is made. Otherwise exactly one call is sent; a transport
  error rejects with that error, a response of any status fulfils.\<close>

definition request :: "'s env \<Rightarrow> service \<Rightarrow> jsval \<Rightarrow> jsval \<Rightarrow> 's net \<Rightarrow> jsval settled \<times> 's net" where
  "request E svc uri params n =
     (if params = JUndef \<or> params = JNull then
        (Rejected (TypeError ''Cannot read properties of undefined (reading method)''), n)
      else
        (case build_opts E svc uri params of
           Inl e \<Rightarrow> (Rejected e, n)
         | Inr req \<Rightarrow>
             (let (s', r) = transport E (server n) req;
                  n' = n\<lparr>server := s', sent := sent n @ [req]\<rparr>
              in (case r of
                    Inl e \<Rightarrow> Rejected e
                  | Inr resp \<Rightarrow> respond E params (enrich (r_status resp) (r_body resp)), n'))))"

subsection \<open>The verb methods\<close>

text \<open>\<open>if (!params.hasOwnProperty("successCode")) params.successCode = code\<close>:
  \<open>hasOwnProperty\<close> throws on \<open>null\<close>, and in strict mode the assignment throws on a
  primitive. The result is the \<open>params\<close> object after the statement.\<close>

definition with_success_code :: "jsval \<Rightarrow> int \<Rightarrow> exn + jsval" where
  "with_success_code params code =
     (if params = JNull then
        Inl (TypeError ''Cannot read properties of null (reading hasOwnProperty)'')
      else if has_own params ''successCode'' then Inr params
      else (case params of
              JObj kd ps \<Rightarrow> Inr (JObj kd (obj_set ps ''successCode'' (JNum code)))
            | _ \<Rightarrow> Inl (TypeError ''Cannot create property successCode on primitive'')))"

text \<open>\<open>{ ...params, method: m }\<close>\<close>

definition with_method :: "jsval \<Rightarrow> string \<Rightarrow> jsval" where
  "with_method params m = JObj KPlain (obj_set (obj_assign [] (spread_props params)) ''method'' (JStr m))"

text \<open>One verb method: \<open>params = {}\<close> when it is \<open>undefined\<close>, the default status,
  the call. The first component of the result is the caller's \<open>params\<close> value after
  the call (a default \<open>{}\<close> is fresh, so the caller's \<open>undefined\<close> stays).\<close>

definition verb_request ::
  "string \<Rightarrow> int \<Rightarrow> 's env \<Rightarrow> service \<Rightarrow> jsval \<Rightarrow> jsval \<Rightarrow> 's net \<Rightarrow> (jsval \<times> jsval settled) \<times> 's net" where
  "verb_request m code E svc uri params n =
     (let p = (if params = JUndef then JObj KPlain [] else params) in
      case with_success_code p code of
        Inl e \<Rightarrow> ((params, Rejected e), n)
      | Inr p' \<Rightarrow>
          (let (r, n') = request E svc uri (with_method p' m) n
           in ((if params = JUndef then JUndef else p', r), n')))"

definition getRequest ::
  "'s env \<Rightarrow> service \<Rightarrow> jsval \<Rightarrow> jsval \<Rightarrow> 's net \<Rightarrow> (jsval \<times> jsval settled) \<times> 's net" where
  "getRequest = verb_request ''GET'' 200"

definition deleteRequest ::
  "'s env \<Rightarrow> service \<Rightarrow> jsval \<Rightarrow> jsval \<Rightarrow> 's net \<Rightarrow> (jsval \<times> jsval settled) \<times> 's net" where
  "deleteRequest = verb_request ''DELETE'' 200"

definition putRequest ::
  "'s env \<Rightarrow> service \<Rightarrow> jsval \<Rightarrow> jsval \<Rightarrow> 's net \<Rightarrow> (jsval \<times> jsval settled) \<times> 's net" where
  "putRequest = verb_request ''PUT'' 200"

definition postRequest ::
  "'s env \<Rightarrow> service \<Rightarrow> jsval \<Rightarrow> jsval \<Rightarrow> 's net \<Rightarrow> (jsval \<times> jsval settled) \<times> 's net" where
  "postRequest = verb_request ''POST'' 201"

definition patchRequest ::
  "'s env \<Rightarrow> service \<Rightarrow> jsval \<Rightarrow> jsval \<Rightarrow> 's net \<Rightarrow> (jsval \<times> jsval settled) \<times> 's net" where
  "patchRequest = verb_request ''PATCH'' 200"

section \<open>A mock environment\<close>

text \<open>The mock transport of the spec's end-to-end scenario: every call is answered with
  status 200 and the body \<open>{"data":[{"ZUID":"1"}]}\<close>; the server state counts the
  calls. The cookie serializer joins name and value with \<open>=\<close>.\<close>

definition mock_body :: jsval where
  "mock_body = JObj KPlain [(''data'', JObj KArray [(''0'', JObj KPlain [(''ZUID'', JStr ''1'')])])]"

definition mock_env :: "nat env" where
  "mock_env =
     \<lparr>process_env = (\<lambda>name. None),
      cookie_serialize = (\<lambda>name v. Inr (js_to_string name @ ''='' @ js_to_string v)),
      call_fun = (\<lambda>f args. Inr JUndef),
      transport = (\<lambda>s req. (Suc s, Inr \<lparr>r_status = 200, r_body = mock_body\<rparr>))\<rparr>"

definition mock_service :: service where
  "mock_service =
     \<lparr>baseAPI = JStr ''https://0-test.api.zesty.io/v1'', token = JStr ''tok'', cookieName = JStr ''APP_SID''\<rparr>"

definition net0 :: "nat net" where
  "net0 = \<lparr>server = 0, sent = []\<rparr>"

section \<open>Lemmas\<close>

subsection \<open>request\<close>

text \<open>The calls \<open>request\<close> sends; the fields of the options; the keys
  \<open>request\<close> reads.\<close>

lemma successCode_not_index: "canonical_index ''successCode'' = None"
  by (simp add: canonical_index_def is_digit_def)

lemma request_sent:
  "sent (snd (request E svc uri params n)) =
     sent n @ (if params = JUndef \<or> params = JNull then []
               else case build_opts E svc uri params of Inl e \<Rightarrow> [] | Inr req \<Rightarrow> [req])"
  by (simp add: request_def split_beta split: sum.splits)

lemma build_opts_no_cookie:
  "\<not> js_truthy (js_get params ''usesCookieAuth'') \<Longrightarrow>
   build_opts E svc uri params = Inr (add_payload params (add_xauth svc params (base_opts svc uri params)))"
  by (simp add: build_opts_def)

lemma build_opts_fields:
  assumes "build_opts E svc uri params = Inr req"
  shows "o_bearer req = token svc \<and> o_uri req = js_to_string (baseAPI svc) @ js_to_string uri \<and>
         o_json req \<and> o_method req = js_get params ''method''"
  using assms
  by (auto simp: build_opts_def base_opts_def add_xauth_def add_payload_def Let_def
           split: if_splits sum.splits)

lemma request_reads_only:
  assumes "\<And>k. k \<noteq> ''successCode'' \<Longrightarrow> js_get p k = js_get q k"
    and "p \<noteq> JUndef" "p \<noteq> JNull" "q \<noteq> JUndef" "q \<noteq> JNull"
  shows "request E svc uri p n = request E svc uri q n"
proof -
  have "add_payload p r = add_payload q r" and "add_xauth svc p r = add_xauth svc q r" for r
    using assms(1) by (simp_all add: add_payload_def add_xauth_def Let_def)
  then have "build_opts E svc uri p = build_opts E svc uri q"
    using assms(1) unfolding build_opts_def base_opts_def by (simp add: Let_def split: sum.split)
  moreover have "respond E p = respond E q"
    using assms(1) by (simp add: respond_def fun_eq_iff)
  ultimately show ?thesis
    using assms(2-5) by (simp add: request_def split: sum.split prod.split)
qed

text \<open>C1. A completed HTTP exchange fulfils the promise whatever its status code,
  4xx and 5xx included: without a formatter the result is the enriched body.\<close>

theorem request_http_status_fulfils:
  assumes "params \<noteq> JUndef" and "params \<noteq> JNull"
    and "\<not> js_truthy (js_get params ''responseFormatter'')"
    and "build_opts E svc uri params = Inr req" and "transport E (server n) req = (s', Inr resp)"
  shows "fst (request E svc uri params n) = Fulfilled (enrich (r_status resp) (r_body resp))"
  using assms by (simp add: request_def respond_def)

lemma request_http_status_fulfils_witness:
  "\<exists>req s' resp.
     build_opts mock_env mock_service (JStr ''/models'') (with_method (JObj KPlain []) ''GET'') = Inr req \<and>
     transport mock_env (server net0) req = (s', Inr resp) \<and>
     fst (request mock_env mock_service (JStr ''/models'') (with_method (JObj KPlain []) ''GET'') net0) =
       Fulfilled (enrich 200 mock_body)"
proof -
  obtain req where req: "build_opts mock_env mock_service (JStr ''/models'') (with_method (JObj KPlain []) ''GET'') = Inr req"
    by (simp add: build_opts_no_cookie with_method_def obj_assign_def own_keys_def prop_get_def)
  have tr: "transport mock_env (server net0) req = (1, Inr \<lparr>r_status = 200, r_body = mock_body\<rparr>)"
    by (simp add: mock_env_def net0_def)
  have "fst (request mock_env mock_service (JStr ''/models'') (with_method (JObj KPlain []) ''GET'') net0) =
          Fulfilled (enrich 200 mock_body)"
    using request_http_status_fulfils [OF _ _ _ req tr] by (simp add: with_method_def obj_assign_def own_keys_def prop_get_def)
  with req tr show ?thesis by blast
qed

text \<open>C6. A response formatter that is a function decides the outcome of a completed
  exchange: the promise fulfils with what the formatter returns on the enriched body, and
  an exception the formatter throws escapes from the callback, so that the promise never
  settles.\<close>

theorem request_formatter:
  assumes "params \<noteq> JUndef" and "params \<noteq> JNull"
    and "js_get params ''responseFormatter'' = JObj (KFunction g) fps"
    and "build_opts E svc uri params = Inr req" and "transport E (server n) req = (s', Inr resp)"
  shows "fst (request E svc uri params n) =
           (case call_fun E g [enrich (r_status resp) (r_body resp)] of
              Inl e \<Rightarrow> Escaped e
            | Inr v \<Rightarrow> Fulfilled v)"
  using assms by (simp add: request_def respond_def)

lemma request_formatter_witness:
  "\<exists>req s' resp.
     build_opts mock_env mock_service (JStr ''/models'') (JObj KPlain [(''responseFormatter'', JObj (KFunction ''fmt'') [])]) = Inr req \<and>
     transport mock_env (server net0) req = (s', Inr resp) \<and>
     fst (request (mock_env\<lparr>call_fun := (\<lambda>f args. Inr (JStr ''formatted''))\<rparr>) mock_service (JStr ''/models'')
            (JObj KPlain [(''responseFormatter'', JObj (KFunction ''fmt'') [])]) net0) = Fulfilled (JStr ''formatted'')"
proof -
  let ?p = "JObj KPlain [(''responseFormatter'', JObj (KFunction ''fmt'') [])]"
  let ?E = "mock_env\<lparr>call_fun := (\<lambda>f args. Inr (JStr ''formatted''))\<rparr>"
  obtain req where req: "build_opts mock_env mock_service (JStr ''/models'') ?p = Inr req"
    by (simp add: build_opts_no_cookie prop_get_def)
  then have req': "build_opts ?E mock_service (JStr ''/models'') ?p = Inr req"
    by (simp add: build_opts_no_cookie prop_get_def)
  have tr: "transport ?E (server net0) req = (1, Inr \<lparr>r_status = 200, r_body = mock_body\<rparr>)"
    by (simp add: mock_env_def net0_def)
  have f: "js_get ?p ''responseFormatter'' = JObj (KFunction ''fmt'') []" by (simp add: prop_get_def)
  from request_formatter [OF _ _ f req' tr] have "fst (request ?E mock_service (JStr ''/models'') ?p net0) = Fulfilled (JStr ''formatted'')"
    by simp
  moreover have "transport mock_env (server net0) req = (1, Inr \<lparr>r_status = 200, r_body = mock_body\<rparr>)"
    by (simp add: mock_env_def net0_def)
  ultimately show ?thesis using req by blast
qed

text \<open>C2. The enriched body \<open>{ statusCode: s, ...body }\<close>: every own enumerable
  property of the body, the last definition of a key winning, and \<open>statusCode\<close> the
  transport's status only where the body has no property of that name.\<close>

theorem enrich_get:
  "js_get (enrich s body) k =
     (case map_of (rev (spread_props body)) k of
        Some v \<Rightarrow> v
      | None \<Rightarrow> if k = ''statusCode'' then JNum s else JUndef)"
  by (simp add: enrich_def prop_get_def map_of_obj_assign map_add_def split: option.splits)

text \<open>A body with its own \<open>statusCode\<close> hides the transport's status: a response
  of status 200 whose JSON body is \<open>{"statusCode": 500}\<close> resolves to an object whose
  \<open>statusCode\<close> is 500.\<close>

theorem enrich_body_statusCode_wins:
  "js_get (enrich 200 (JObj KPlain [(''statusCode'', JNum 500)])) ''statusCode'' = JNum 500"
  by (simp add: enrich_def obj_assign_def own_keys_def is_index_def canonical_index_def
                is_digit_def prop_get_def)

text \<open>C5. A transport error rejects the promise with that error, unmodified, after
  the one call.\<close>

theorem request_transport_error:
  assumes "params \<noteq> JUndef" and "params \<noteq> JNull"
    and "build_opts E svc uri params = Inr req" and "transport E (server n) req = (s', Inl e)"
  shows "request E svc uri params n = (Rejected e, n\<lparr>server := s', sent := sent n @ [req]\<rparr>)"
  using assms by (simp add: request_def)

lemma request_transport_error_witness:
  "\<exists>req. build_opts mock_env mock_service (JStr ''/models'') (with_method (JObj KPlain []) ''GET'') = Inr req \<and>
     request (mock_env\<lparr>transport := (\<lambda>s r. (s, Inl (Raised (JStr ''ECONNREFUSED''))))\<rparr>)
       mock_service (JStr ''/models'') (with_method (JObj KPlain []) ''GET'') net0 =
     (Rejected (Raised (JStr ''ECONNREFUSED'')), net0\<lparr>sent := [req]\<rparr>)"
proof -
  obtain req where req: "build_opts mock_env mock_service (JStr ''/models'') (with_method (JObj KPlain []) ''GET'') = Inr req"
    by (simp add: build_opts_no_cookie with_method_def obj_assign_def own_keys_def prop_get_def)
  then have req': "build_opts (mock_env\<lparr>transport := (\<lambda>s r. (s, Inl (Raised (JStr ''ECONNREFUSED''))))\<rparr>)
                     mock_service (JStr ''/models'') (with_method (JObj KPlain []) ''GET'') = Inr req"
    by (simp add: build_opts_no_cookie with_method_def obj_assign_def own_keys_def prop_get_def)
  have tr: "transport (mock_env\<lparr>transport := (\<lambda>s r. (s, Inl (Raised (JStr ''ECONNREFUSED''))))\<rparr>) (server net0) req =
              (0, Inl (Raised (JStr ''ECONNREFUSED'')))"
    by (simp add: net0_def)
  from request_transport_error [OF _ _ req' tr] req show ?thesis by (simp add: net0_def with_method_def)
qed

text \<open>\<open>request\<close> sends at most one call, and none exactly when the executor
  throws before it (\<open>params\<close> \<open>undefined\<close> or \<open>null\<close>, or the cookie serializer
  throws).\<close>

theorem request_single_call:
  "\<exists>extra. sent (snd (request E svc uri params n)) = sent n @ extra \<and> length extra \<le> 1 \<and>
     (extra = [] \<longleftrightarrow> params = JUndef \<or> params = JNull \<or> (\<exists>e. build_opts E svc uri params = Inl e))"
  by (auto simp: request_sent split: sum.splits)

text \<open>C7. The headers of a request: \<open>X-Auth\<close> carries the token exactly when
  \<open>usesXAuthHeader\<close> is truthy, a \<open>Cookie\<close> header is present exactly when
  \<open>usesCookieAuth\<close> is truthy, and there is no other header; the bearer token, the
  URI and JSON parsing are always set.\<close>

theorem build_opts_headers:
  assumes "build_opts E svc uri params = Inr req"
  shows "map_of (o_headers req) ''X-Auth'' =
           (if js_truthy (js_get params ''usesXAuthHeader'') then Some (token svc) else None) \<and>
         (''Cookie'' \<in> fst ` set (o_headers req) \<longleftrightarrow> js_truthy (js_get params ''usesCookieAuth'')) \<and>
         fst ` set (o_headers req) \<subseteq> {''Cookie'', ''X-Auth''} \<and>
         o_bearer req = token svc \<and> o_uri req = js_to_string (baseAPI svc) @ js_to_string uri \<and> o_json req"
  using assms
  by (auto simp: build_opts_def base_opts_def add_xauth_def add_payload_def Let_def
           split: if_splits sum.splits)

lemma build_opts_headers_witness:
  "\<exists>req. build_opts mock_env mock_service (JStr ''/x'') (JObj KPlain [(''usesXAuthHeader'', JBool True)]) = Inr req \<and>
         map_of (o_headers req) ''X-Auth'' = Some (JStr ''tok'') \<and> ''Cookie'' \<notin> fst ` set (o_headers req)"
proof -
  obtain req where req: "build_opts mock_env mock_service (JStr ''/x'') (JObj KPlain [(''usesXAuthHeader'', JBool True)]) = Inr req"
    by (simp add: build_opts_no_cookie prop_get_def)
  from build_opts_headers [OF req] req show ?thesis by (simp add: prop_get_def mock_service_def)
qed

text \<open>C8. The payload, when truthy, is sent either as multipart form data (when
  \<open>isFormData\<close> is truthy) or as the JSON body, never both; a falsy payload sends
  neither.\<close>

theorem build_opts_payload:
  assumes "build_opts E svc uri params = Inr req"
  shows "(o_body req, o_formData req) =
           (let p = js_get params ''payload'' in
            if js_truthy p then (if js_truthy (js_get params ''isFormData'') then (None, Some p) else (Some p, None))
            else (None, None))"
  using assms
  by (auto simp: build_opts_def base_opts_def add_xauth_def add_payload_def Let_def
           split: if_splits sum.splits)

lemma build_opts_payload_witness:
  "\<exists>req. build_opts mock_env mock_service (JStr ''/x'')
            (JObj KPlain [(''payload'', JStr ''file''), (''isFormData'', JBool True)]) = Inr req \<and>
         (o_body req, o_formData req) = (None, Some (JStr ''file''))"
proof -
  obtain req where req: "build_opts mock_env mock_service (JStr ''/x'')
            (JObj KPlain [(''payload'', JStr ''file''), (''isFormData'', JBool True)]) = Inr req"
    by (simp add: build_opts_no_cookie prop_get_def)
  from build_opts_payload [OF req] req show ?thesis by (simp add: prop_get_def)
qed

text \<open>C9. When \<open>usesCookieAuth\<close> is truthy and \<open>cookie.serialize\<close> throws, the
  promise rejects with that error and no call is made.\<close>

theorem request_cookie_error:
  assumes "js_truthy (js_get params ''usesCookieAuth'')"
    and "cookie_serialize E (cookieName svc) (token svc) = Inl e"
    and "params \<noteq> JUndef" and "params \<noteq> JNull"
  shows "request E svc uri params n = (Rejected e, n)"
  using assms by (simp add: request_def build_opts_def Let_def)

lemma request_cookie_error_witness:
  "request (mock_env\<lparr>cookie_serialize := (\<lambda>name v. Inl (TypeError ''argument name is invalid''))\<rparr>)
      mock_service (JStr ''/x'') (JObj KPlain [(''usesCookieAuth'', JBool True)]) net0 =
   (Rejected (TypeError ''argument name is invalid''), net0)"
  by (rule request_cookie_error) (simp_all add: prop_get_def)

subsection \<open>The constructor\<close>

text \<open>C12. The constructor succeeds exactly when both \<open>baseAPI\<close> and \<open>token\<close> are
  truthy.\<close>

theorem Service_new_ok_iff:
  "(\<exists>svc. Service_new E b t = Inr svc) \<longleftrightarrow> js_truthy b \<and> js_truthy t"
  by (simp add: Service_new_def)

text \<open>C13. A constructed service keeps the arguments and takes its cookie name from a
  non-empty \<open>COOKIE\<close> environment variable, \<open>APP_SID\<close> otherwise.\<close>

theorem Service_new_fields:
  assumes "Service_new E b t = Inr svc"
  shows "baseAPI svc = b \<and> token svc = t \<and>
         cookieName svc = (case process_env E ''COOKIE'' of
                             Some v \<Rightarrow> if v = [] then JStr ''APP_SID'' else JStr v
                           | None \<Rightarrow> JStr ''APP_SID'')"
  using assms
  by (auto simp: Service_new_def js_or_def env_val_def split: if_splits option.splits)

lemma Service_new_fields_witness:
  "Service_new mock_env (JStr ''https://api'') (JStr ''tok'') =
     Inr \<lparr>baseAPI = JStr ''https://api'', token = JStr ''tok'', cookieName = JStr ''APP_SID''\<rparr> \<and>
   cookieName \<lparr>baseAPI = JStr ''https://api'', token = JStr ''tok'', cookieName = JStr ''APP_SID''\<rparr> = JStr ''APP_SID''"
proof -
  have h: "Service_new mock_env (JStr ''https://api'') (JStr ''tok'') =
             Inr \<lparr>baseAPI = JStr ''https://api'', token = JStr ''tok'', cookieName = JStr ''APP_SID''\<rparr>"
    by (simp add: Service_new_def js_or_def env_val_def mock_env_def)
  from Service_new_fields [OF h] h show ?thesis by (simp add: mock_env_def)
qed

text \<open>The two constructor tests of \<open>service.test.js\<close>: no arguments fail on
  \<open>baseAPI\<close>, a URL without a token fails on \<open>token\<close>, each with its message.\<close>

theorem Service_new_error_messages:
  "Service_new E JUndef JUndef =
     Inl (Error ''SDK:Service:constructor() missing required `baseAPI` argument on instantiation'') \<and>
   Service_new E (JStr ''https://api'') JUndef =
     Inl (Error ''SDK:Service:constructor() missing required `token` argument on instantiation. All API requests have to be authenticated'')"
  by (simp add: Service_new_def)

subsection \<open>The verb methods\<close>

lemma with_success_code_obj:
  "with_success_code (JObj kd ps) code =
     Inr (JObj kd (if ''successCode'' \<in> fst ` set ps then ps else obj_set ps ''successCode'' (JNum code)))"
  by (simp add: with_success_code_def)

lemma verb_request_obj:
  "verb_request m code E svc uri (JObj kd ps) n =
     (let p' = JObj kd (if ''successCode'' \<in> fst ` set ps then ps else obj_set ps ''successCode'' (JNum code))
      in case request E svc uri (with_method p' m) n of (r, n') \<Rightarrow> ((p', r), n'))"
  by (simp add: verb_request_def with_success_code_obj Let_def split_beta)

lemma js_get_with_method [simp]: "js_get (with_method p m) ''method'' = JStr m"
  by (simp add: with_method_def)

lemma with_method_defined [simp]: "with_method p m \<noteq> JUndef" "with_method p m \<noteq> JNull"
  by (simp_all add: with_method_def)

text \<open>C18. A verb method called with \<open>null\<close> or a primitive (a boolean, a number or a
  string) as \<open>params\<close> rejects with a \<open>TypeError\<close> (\<open>hasOwnProperty\<close> of
  \<open>null\<close>, or the strict-mode assignment to a primitive) and sends nothing; the caller's
  value comes back unchanged.\<close>

theorem verb_request_bad_params:
  assumes "params \<noteq> JUndef" and "\<forall>kd ps. params \<noteq> JObj kd ps"
  shows "verb_request m code E svc uri params n =
           ((params, Rejected (TypeError (if params = JNull then ''Cannot read properties of null (reading hasOwnProperty)''
                                          else ''Cannot create property successCode on primitive''))), n)"
  using assms
  by (cases params) (simp_all add: verb_request_def with_success_code_def successCode_not_index)

lemma verb_request_bad_params_witness:
  "getRequest mock_env mock_service (JStr ''/models'') JNull net0 =
     ((JNull, Rejected (TypeError ''Cannot read properties of null (reading hasOwnProperty)'')), net0) \<and>
   postRequest mock_env mock_service (JStr ''/models'') (JStr ''x'') net0 =
     ((JStr ''x'', Rejected (TypeError ''Cannot create property successCode on primitive'')), net0)"
  by (simp add: getRequest_def postRequest_def verb_request_bad_params)

text \<open>\<open>postRequest\<close> writes the default status 201 into the caller's
  \<open>params\<close> object when it has no own \<open>successCode\<close>, and leaves a caller's value
  alone.\<close>

theorem postRequest_default:
  "fst (fst (postRequest E svc uri (JObj kd ps) n)) =
     JObj kd (if ''successCode'' \<in> fst ` set ps then ps else obj_set ps ''successCode'' (JNum 201))"
  by (simp add: postRequest_def verb_request_obj Let_def split_beta)

text \<open>C15. \<open>request\<close> never reads \<open>successCode\<close>: the expected status has no
  influence on the call, on its outcome or on the network.\<close>

theorem request_ignores_successCode:
  "request E svc uri (JObj kd (obj_set ps ''successCode'' v)) n = request E svc uri (JObj kd ps) n"
  by (rule request_reads_only) (simp_all add: js_get_obj_set_other successCode_not_index)

text \<open>C16. The default is written into the caller's object: reusing one options object
  for a GET and then a POST sends the POST with the GET's \<open>successCode\<close> 200, not 201.\<close>

theorem get_then_post_successCode:
  assumes "''successCode'' \<notin> fst ` set ps"
  shows "(case getRequest E svc uri (JObj KPlain ps) n of
            ((p1, r1), n1) \<Rightarrow> js_get (fst (fst (postRequest E svc uri' p1 n1))) ''successCode'') = JNum 200"
  using assms
  by (simp add: getRequest_def postRequest_def verb_request_obj Let_def split_beta)

lemma get_then_post_successCode_witness:
  "''successCode'' \<notin> fst ` set ([] :: props) \<and>
   (case getRequest mock_env mock_service (JStr ''/models'') (JObj KPlain []) net0 of
      ((p1, r1), n1) \<Rightarrow>
        js_get (fst (fst (postRequest mock_env mock_service (JStr ''/models'') p1 n1))) ''successCode'') = JNum 200"
  using get_then_post_successCode [where ps = "[]" and E = mock_env and svc = mock_service
          and uri = "JStr ''/models''" and uri' = "JStr ''/models''" and n = net0]
  by simp

text \<open>C17. A verb method sends at most one request, and the one it sends carries the
  verb as its method, whatever \<open>method\<close> the caller's \<open>params\<close> hold.\<close>

theorem verb_request_sends_method:
  "sent (snd (verb_request m code E svc uri params n)) = sent n \<or>
   (\<exists>req. sent (snd (verb_request m code E svc uri params n)) = sent n @ [req] \<and> o_method req = JStr m)"
proof (cases "with_success_code (if params = JUndef then JObj KPlain [] else params) code")
  case (Inl e)
  then show ?thesis by (simp add: verb_request_def)
next
  case (Inr p')
  show ?thesis
  proof (cases "build_opts E svc uri (with_method p' m)")
    case (Inl e)
    with Inr show ?thesis by (simp add: verb_request_def split_beta request_sent)
  next
    case (Inr req)
    with build_opts_fields [OF Inr] \<open>with_success_code _ _ = Inr p'\<close> show ?thesis
      by (simp add: verb_request_def split_beta request_sent)
  qed
qed

subsection \<open>interpolate\<close>

lemma interpolate_loop_no_match:
  "\<forall>k \<in> set ks. index_of k url = None \<Longrightarrow> interpolate_loop E url repl ks = Inr url"
  by (induction ks) (auto simp: str_replace_def js_replace_absent split: jsval.splits objkind.splits)

lemma forin_keys_single: "forin_keys (JObj KPlain [(k, v)]) = [k]"
  by (simp add: forin_keys_def own_keys_def)

lemmas interpolate_one = interpolate_def forin_keys_single str_replace_def js_replace_def prop_get_def

lemma interpolate_loop_fill:
  assumes "list_all (\<lambda>(k, v, s). k \<noteq> [] \<and> hd k = c \<and> c \<notin> set v \<and> c \<notin> set s \<and>
                              CHR ''$'' \<notin> set v \<and> js_get repl k = JStr v) segs"
    and "c \<notin> set P"
  shows "interpolate_loop E (P @ concat (map (\<lambda>(k, v, s). k @ s) segs)) repl (map fst segs) =
           Inr (P @ concat (map (\<lambda>(k, v, s). v @ s) segs))"
  using assms
proof (induction segs arbitrary: P)
  case (Cons seg segs)
  obtain k v s where seg: "seg = (k, v, s)" by (cases seg) auto
  let ?T = "concat (map (\<lambda>(k, v, s). k @ s) segs)"
  from Cons.prems seg have k: "k \<noteq> []" "hd k = c" and v: "c \<notin> set v" "CHR ''$'' \<notin> set v"
    and s: "c \<notin> set s" and get: "js_get repl k = JStr v" by auto
  have idx: "index_of k (P @ k @ s @ ?T) = Some (length P)"
    using index_of_after [OF k(1)] k(2) Cons.prems(2) by simp
  have "str_replace (call_fun E) (P @ k @ s @ ?T) k (js_get repl k) = Inr (P @ v @ s @ ?T)"
    using get js_replace_first [OF idx v(2)] by (simp add: str_replace_def)
  moreover have "c \<notin> set (P @ v @ s)" using Cons.prems(2) v(1) s by simp
  ultimately show ?case
    using Cons.IH [of "P @ v @ s"] Cons.prems(1) seg by simp
qed simp

lemma forin_keys_interp_repl:
  "list_all (\<lambda>(k, v, s). \<not> is_index k) segs \<Longrightarrow> forin_keys (interp_repl segs) = map fst segs"
  by (simp add: forin_keys_def interp_repl_def own_keys_def Let_def comp_def split_beta list_all_iff
                filter_id_conv)

lemma js_get_interp_repl:
  assumes "distinct (map fst segs)" and "(k, v, s) \<in> set segs"
  shows "js_get (interp_repl segs) k = JStr v"
proof -
  have "map fst (map (\<lambda>(k, v, s). (k, JStr v)) segs) = map fst segs" by (induction segs) auto
  moreover have "(k, JStr v) \<in> set (map (\<lambda>(k, v, s). (k, JStr v)) segs)" using assms(2) by force
  ultimately have "map_of (map (\<lambda>(k, v, s). (k, JStr v)) segs) k = Some (JStr v)"
    using assms(1) by (metis map_of_is_SomeI)
  then show ?thesis by (simp add: interp_repl_def prop_get_def)
qed

text \<open>C20. \<open>interpolate\<close> fills a template: for a template of literal text and
  placeholders \<open>pre k1 s1 k2 s2 ...\<close> and a replacement object with the same distinct
  placeholders in the same order, each placeholder starting with a character \<open>c\<close>
  (\<open>{\<close> in the SDK's templates) that occurs neither in the literal text nor in any value,
  no placeholder an array index and no value containing \<open>$\<close>, the result is the template
  with every placeholder replaced by its value.\<close>

theorem interpolate_fill:
  assumes "list_all (\<lambda>(k, v, s). k \<noteq> [] \<and> hd k = c \<and> c \<notin> set v \<and> c \<notin> set s \<and>
                              CHR ''$'' \<notin> set v \<and> \<not> is_index k) segs"
    and "c \<notin> set pre" and "distinct (map fst segs)"
  shows "interpolate E (interp_template pre segs) (interp_repl segs) = Inr (interp_fill pre segs)"
proof -
  have keys: "forin_keys (interp_repl segs) = map fst segs"
    using assms(1) by (intro forin_keys_interp_repl) (auto simp: list_all_iff)
  have "list_all (\<lambda>(k, v, s). k \<noteq> [] \<and> hd k = c \<and> c \<notin> set v \<and> c \<notin> set s \<and>
                              CHR ''$'' \<notin> set v \<and> js_get (interp_repl segs) k = JStr v) segs"
    using assms(1) js_get_interp_repl [OF assms(3)] by (auto simp: list_all_iff)
  from interpolate_loop_fill [OF this assms(2)] show ?thesis
    by (simp add: interpolate_def keys interp_template_def interp_fill_def)
qed

lemma interpolate_fill_witness:
  "interpolate mock_env ''/foo/{ZUID}'' (JObj KPlain [(''{ZUID}'', JStr ''abc'')]) = Inr ''/foo/abc'' \<and>
   interpolate mock_env ''/models/{MODEL}/fields/{FIELD}''
     (JObj KPlain [(''{MODEL}'', JStr ''6-a''), (''{FIELD}'', JStr ''12-b'')]) = Inr ''/models/6-a/fields/12-b''"
proof -
  have "interpolate mock_env (interp_template ''/foo/'' [(''{ZUID}'', ''abc'', [])]) (interp_repl [(''{ZUID}'', ''abc'', [])]) =
          Inr (interp_fill ''/foo/'' [(''{ZUID}'', ''abc'', [])])"
    by (rule interpolate_fill [where c = "CHR ''{''"])
       (simp_all add: is_index_def canonical_index_def is_digit_def)
  moreover have "interpolate mock_env (interp_template ''/models/'' [(''{MODEL}'', ''6-a'', ''/fields/''), (''{FIELD}'', ''12-b'', [])])
                   (interp_repl [(''{MODEL}'', ''6-a'', ''/fields/''), (''{FIELD}'', ''12-b'', [])]) =
          Inr (interp_fill ''/models/'' [(''{MODEL}'', ''6-a'', ''/fields/''), (''{FIELD}'', ''12-b'', [])])"
    by (rule interpolate_fill [where c = "CHR ''{''"])
       (simp_all add: is_index_def canonical_index_def is_digit_def)
  ultimately show ?thesis by (simp add: interp_template_def interp_fill_def interp_repl_def)
qed

text \<open>The example of the spec: \<open>interpolate("/foo/{ZUID}", {"{ZUID}": "abc"})\<close>
  is \<open>"/foo/abc"\<close>.\<close>

theorem interpolate_spec_example:
  "interpolate E ''/foo/{ZUID}'' (JObj KPlain [(''{ZUID}'', JStr ''abc'')]) = Inr ''/foo/abc''"
  by (simp add: interpolate_one)

text \<open>C21. When no key of the replacement object occurs in the template, the template
  comes back unchanged, and no replacement function is called.\<close>

theorem interpolate_no_match:
  "\<forall>k \<in> set (forin_keys repl). index_of k url = None \<Longrightarrow> interpolate E url repl = Inr url"
  by (simp add: interpolate_def interpolate_loop_no_match)

lemma interpolate_no_match_witness:
  "forin_keys (JObj KPlain [(''{ZUID}'', JStr ''x'')]) = [''{ZUID}''] \<and> index_of ''{ZUID}'' ''/models'' = None \<and>
   interpolate mock_env ''/models'' (JObj KPlain [(''{ZUID}'', JStr ''x'')]) = Inr ''/models''"
proof -
  have h: "\<forall>k \<in> set (forin_keys (JObj KPlain [(''{ZUID}'', JStr ''x'')])). index_of k ''/models'' = None"
    by (simp add: forin_keys_single)
  show ?thesis using interpolate_no_match [OF h, of mock_env] by (simp add: forin_keys_single)
qed

text \<open>One placeholder and a value without \<open>$\<close>: the value replaces the first
  occurrence of the placeholder, the rest of the template is kept.\<close>

theorem interpolate_single:
  assumes "index_of k url = Some i" and "CHR ''$'' \<notin> set v"
  shows "interpolate E url (JObj KPlain [(k, JStr v)]) = Inr (take i url @ v @ drop (i + length k) url)"
  using assms by (simp add: interpolate_def forin_keys_single str_replace_def js_replace_first prop_get_def)

lemma interpolate_single_witness:
  "index_of ''{ZUID}'' ''/models/{ZUID}/fields'' = Some 8 \<and> CHR ''$'' \<notin> set ''6-abc'' \<and>
   interpolate mock_env ''/models/{ZUID}/fields'' (JObj KPlain [(''{ZUID}'', JStr ''6-abc'')]) =
     Inr ''/models/6-abc/fields''"
proof -
  have h1: "index_of ''{ZUID}'' ''/models/{ZUID}/fields'' = Some 8" by simp
  have h2: "CHR ''$'' \<notin> set ''6-abc''" by simp
  show ?thesis using h1 h2 interpolate_single [OF h1 h2, of mock_env] by simp
qed


text \<open>The value is not inserted literally: \<open>$&\<close> in it stands for the
  placeholder.\<close>

theorem interpolate_dollar:
  "interpolate E ''/items/{ID}'' (JObj KPlain [(''{ID}'', JStr ''a$&b'')]) = Inr ''/items/a{ID}b''"
  by (simp add: interpolate_one)

text \<open>Values are substituted one key after the other into the result of the previous
  replacements: a value that contains a placeholder of a later key is itself replaced.\<close>

lemma interpolate_reinjects:
  "interpolate E ''/a/{A}'' (JObj KPlain [(''{A}'', JStr ''{B}''), (''{B}'', JStr ''x'')]) = Inr ''/a/x''"
  by (simp add: interpolate_def forin_keys_def own_keys_def is_index_def canonical_index_def is_digit_def
                str_replace_def js_replace_def prop_get_def)

text \<open>A missing value is inserted as the text \<open>undefined\<close>.\<close>

theorem interpolate_undefined:
  "interpolate E ''/models/{ZUID}'' (JObj KPlain [(''{ZUID}'', JUndef)]) = Inr ''/models/undefined''"
  by (simp add: interpolate_one)

end
