(* ===== verification/Instance.thy ===== *)
theory Instance
  imports Service
begin

text \<open>
  The \<open>Instance\<close> class of \<open>src/src/services/instance/index.js\<close>.
  \<^item> \<open>mix_with\<close> is \<open>MixinBuilder.with\<close>: the mixins applied in turn to the superclass
    by \<open>reduce\<close>. A class is its prototype chain (\<open>cls\<close>, a list of method tables,
    the class's own table first); a mixin \<open>superclass => class extends superclass {...}\<close>
    is \<open>class_extends\<close> of its table, and \<open>resolve_method\<close> is the prototype lookup
    of a method name. \<open>Instance_class\<close> is the class the module exports.
  \<^item> \<open>Instance_new\<close> is the constructor: the \<open>instanceZUID\<close> guard, the base URLs
    taken from the options, the environment or the per-instance default, the \<open>Service\<close>
    constructor of the superclass, the legacy service and the merged endpoint tables.
    The endpoint tables of the mixin modules (\<open>Models.API\<close> and the others) are not
    under \<open>src/\<close>; they are the parameters \<open>modules\<close>.
  \<^item> \<open>formatPath\<close> is the method of the same name.
\<close>

section \<open>Mixin composition\<close>

type_synonym method_table = "(string \<times> string) list"

type_synonym cls = "method_table list"

text \<open>\<open>mixins.reduce((c, mixin) => mixin(c), this.superclass)\<close>\<close>

definition mix_with :: "'c \<Rightarrow> ('c \<Rightarrow> 'c) list \<Rightarrow> 'c" where
  "mix_with superclass mixins = foldl (\<lambda>c mixin. mixin c) superclass mixins"

definition class_extends :: "method_table \<Rightarrow> cls \<Rightarrow> cls" where
  "class_extends tbl c = tbl # c"

fun resolve_method :: "cls \<Rightarrow> string \<Rightarrow> string option" where
  "resolve_method [] k = None"
| "resolve_method (tbl # c) k = (case map_of tbl k of Some f \<Rightarrow> Some f | None \<Rightarrow> resolve_method c k)"

text \<open>\<open>class Instance extends mix(Service).with(Models.mixin, Fields.mixin, Items.mixin,
  Settings.mixin, AuditLogs.mixin) { ... }\<close>\<close>

definition Instance_class :: "method_table \<Rightarrow> method_table list \<Rightarrow> method_table \<Rightarrow> cls" where
  "Instance_class service_tbl mixin_tbls instance_tbl =
     class_extends instance_tbl (mix_with [service_tbl] (map class_extends mixin_tbls))"

section \<open>The constructor\<close>

record modules =
  models_API :: jsval
  fields_API :: jsval
  items_API :: jsval
  settings_API :: jsval
  auditLogs_API :: jsval
  items_legacy_API :: jsval

record instance_state =
  inst_svc :: service
  legacy :: service
  legacy_API :: jsval
  API :: jsval

definition instance_base_url :: "'s env \<Rightarrow> jsval \<Rightarrow> jsval \<Rightarrow> jsval" where
  "instance_base_url E opts zuid =
     js_or (js_get opts ''instancesAPIURL'')
       (js_or (env_val E ''ZESTY_INSTANCE_API'') (JStr (''https://'' @ js_to_string zuid @ ''.api.zesty.io/v1'')))"

definition legacy_base_url :: "'s env \<Rightarrow> jsval \<Rightarrow> jsval \<Rightarrow> jsval" where
  "legacy_base_url E opts zuid =
     js_or (js_get opts ''sitesServiceURL'')
       (js_or (env_val E ''ZESTY_INSTANCE_LEGACY_API'') (JStr (''https://svc.zesty.io/sites-service/'' @ js_to_string zuid)))"

text \<open>\<open>{...Models.API, ...Fields.API, ...Items.API, ...Settings.API, ...AuditLogs.API}\<close>\<close>

definition merged_API :: "modules \<Rightarrow> jsval" where
  "merged_API M =
     JObj KPlain (obj_assign [] (concat (map spread_props
        [models_API M, fields_API M, items_API M, settings_API M, auditLogs_API M])))"

text \<open>Reading \<open>options.instancesAPIURL\<close> throws when \<open>options\<close> is \<open>null\<close>
  (\<open>undefined\<close> is replaced by the default \<open>{}\<close>). The superclass constructor is
  \<open>Service\<close>'s: the mixins add methods only.\<close>

definition Instance_new :: "'s env \<Rightarrow> modules \<Rightarrow> jsval \<Rightarrow> jsval \<Rightarrow> jsval \<Rightarrow> exn + instance_state" where
  "Instance_new E M zuid tok options =
     (let opts = (if options = JUndef then JObj KPlain [] else options) in
      if \<not> js_truthy zuid then
        Inl (Error ''SDK:Instance:constructor() missing required `instanceZUID` argument on instantiation'')
      else if opts = JNull then
        Inl (TypeError ''Cannot read properties of null (reading instancesAPIURL)'')
      else
        (case Service_new E (instance_base_url E opts zuid) tok of
           Inl e \<Rightarrow> Inl e
         | Inr svc \<Rightarrow>
             (case Service_new E (legacy_base_url E opts zuid) tok of
                Inl e \<Rightarrow> Inl e
              | Inr leg \<Rightarrow>
                  Inr \<lparr>inst_svc = svc, legacy = leg,
                       legacy_API = JObj KPlain (obj_assign [] (spread_props (items_legacy_API M))),
                       API = merged_API M\<rparr>)))"

section \<open>formatPath\<close>

text \<open>A falsy \<open>path\<close> throws the SDK's error; a truthy value that is not a string has no
  \<open>trim\<close> method.\<close>

definition formatPath :: "jsval \<Rightarrow> exn + string" where
  "formatPath path =
     (if \<not> js_truthy path then Inl (Error ''SDK:Instance:formatPath() missing required `path` argument'')
      else case path of
             JStr s \<Rightarrow> Inr (replace_non_alnum (replace_amp (js_lower (js_trim s))))
           | _ \<Rightarrow> Inl (TypeError ''path.trim is not a function''))"

text \<open>The characters a slug is made of: lower-case ASCII letters, digits and \<open>-\<close>.\<close>

definition is_slug_char :: "char \<Rightarrow> bool" where
  "is_slug_char c \<longleftrightarrow>
     (let n = (of_char c :: nat) in (48 \<le> n \<and> n \<le> 57) \<or> (97 \<le> n \<and> n \<le> 122) \<or> n = 45)"

text \<open>The reference for \<open>formatPath\<close>: one pass over the trimmed path, each character
  mapped on its own: \<open>&\<close> to \<open>and\<close>, a letter or digit to its lower case, anything
  else to \<open>-\<close>.\<close>

definition slug_of_char :: "char \<Rightarrow> string" where
  "slug_of_char c =
     (if c = CHR ''&'' then ''and''
      else if is_ascii_alnum (js_lower_char c) then [js_lower_char c] else ''-'')"

definition format_slug :: "string \<Rightarrow> string" where
  "format_slug s = concat (map slug_of_char (js_trim s))"

text \<open>Endpoint tables for the examples: \<open>Models\<close> and \<open>AuditLogs\<close> both name an
  endpoint \<open>getModels\<close>.\<close>

definition mock_modules :: modules where
  "mock_modules =
     \<lparr>models_API = JObj KPlain [(''fetchModels'', JStr ''/content/models''), (''getModels'', JStr ''/content/models'')],
      fields_API = JObj KPlain [(''fetchFields'', JStr ''/content/models/MODEL_ZUID/fields'')],
      items_API = JUndef, settings_API = JUndef,
      auditLogs_API = JObj KPlain [(''getModels'', JStr ''/env/audits'')],
      items_legacy_API = JUndef\<rparr>"

section \<open>Lemmas\<close>

subsection \<open>Mixin composition\<close>


lemma mix_with_extends: "mix_with c (map class_extends ts) = rev ts @ c"
  by (induction ts arbitrary: c) (simp_all add: mix_with_def class_extends_def)

lemma resolve_method_append:
  "resolve_method (xs @ ys) k = (case resolve_method xs k of Some f \<Rightarrow> Some f | None \<Rightarrow> resolve_method ys k)"
  by (induction xs) (auto split: option.splits)

text \<open>C30. Method lookup on an \<open>Instance\<close>: the class's own methods first, then the
  mixins from the last applied (\<open>AuditLogs\<close>) back to the first (\<open>Models\<close>), then
  \<open>Service\<close>.\<close>

theorem Instance_class_resolve:
  "resolve_method (Instance_class s ms i) k =
     (case map_of i k of
        Some f \<Rightarrow> Some f
      | None \<Rightarrow> (case resolve_method (rev ms) k of Some f \<Rightarrow> Some f | None \<Rightarrow> map_of s k))"
  by (simp add: Instance_class_def mix_with_extends class_extends_def resolve_method_append
           split: option.splits)

subsection \<open>The constructor\<close>

lemma js_or_truthy_right: "js_truthy b \<Longrightarrow> js_truthy (js_or a b)"
  by (simp add: js_or_def)

lemma base_urls_truthy:
  "js_truthy (instance_base_url E opts zuid)" "js_truthy (legacy_base_url E opts zuid)"
  by (simp_all add: instance_base_url_def legacy_base_url_def js_or_truthy_right)

lemma Service_new_truthy_base:
  "js_truthy b \<Longrightarrow> Service_new E b t =
     (if js_truthy t then Inr \<lparr>baseAPI = b, token = t, cookieName = js_or (env_val E ''COOKIE'') (JStr ''APP_SID'')\<rparr>
      else Inl (Error ''SDK:Service:constructor() missing required `token` argument on instantiation. All API requests have to be authenticated''))"
  by (simp add: Service_new_def)

lemma Instance_new_Inr:
  "Instance_new E M zuid tok options = Inr i \<longleftrightarrow>
     js_truthy zuid \<and> js_truthy tok \<and> options \<noteq> JNull \<and>
     i = (let opts = (if options = JUndef then JObj KPlain [] else options) in
          \<lparr>inst_svc = \<lparr>baseAPI = instance_base_url E opts zuid, token = tok,
                      cookieName = js_or (env_val E ''COOKIE'') (JStr ''APP_SID'')\<rparr>,
           legacy = \<lparr>baseAPI = legacy_base_url E opts zuid, token = tok,
                      cookieName = js_or (env_val E ''COOKIE'') (JStr ''APP_SID'')\<rparr>,
           legacy_API = JObj KPlain (obj_assign [] (spread_props (items_legacy_API M))),
           API = merged_API M\<rparr>)"
  by (auto simp: Instance_new_def Let_def Service_new_truthy_base base_urls_truthy)

text \<open>C27. An \<open>Instance\<close> is constructed exactly when \<open>instanceZUID\<close> and the
  token are truthy and the options are not \<open>null\<close>: the base URL the superclass
  receives is never empty.\<close>

theorem Instance_new_ok_iff:
  "(\<exists>i. Instance_new E M zuid tok options = Inr i) \<longleftrightarrow> js_truthy zuid \<and> js_truthy tok \<and> options \<noteq> JNull"
  by (simp add: Instance_new_Inr)

text \<open>Without a token the error is the one of the \<open>Service\<close> constructor, raised
  by the \<open>super\<close> call.\<close>

theorem Instance_new_token_error:
  assumes "js_truthy zuid" and "options \<noteq> JNull" and "\<not> js_truthy tok"
  shows "Instance_new E M zuid tok options =
           Inl (Error ''SDK:Service:constructor() missing required `token` argument on instantiation. All API requests have to be authenticated'')"
  using assms by (auto simp: Instance_new_def Let_def Service_new_truthy_base base_urls_truthy)

lemma Instance_new_token_error_witness:
  "Instance_new mock_env mock_modules (JStr ''8-abc'') JUndef JUndef =
     Inl (Error ''SDK:Service:constructor() missing required `token` argument on instantiation. All API requests have to be authenticated'')"
  by (rule Instance_new_token_error) simp_all

text \<open>C28. The base URLs: the option when truthy, else a non-empty environment variable,
  else the per-instance default; both services carry the token.\<close>

theorem Instance_new_urls:
  assumes "Instance_new E M zuid tok options = Inr i"
    and "opts = (if options = JUndef then JObj KPlain [] else options)"
  shows "baseAPI (inst_svc i) =
           (if js_truthy (js_get opts ''instancesAPIURL'') then js_get opts ''instancesAPIURL''
            else case process_env E ''ZESTY_INSTANCE_API'' of
                   Some v \<Rightarrow> if v \<noteq> [] then JStr v else JStr (''https://'' @ js_to_string zuid @ ''.api.zesty.io/v1'')
                 | None \<Rightarrow> JStr (''https://'' @ js_to_string zuid @ ''.api.zesty.io/v1'')) \<and>
         baseAPI (legacy i) =
           (if js_truthy (js_get opts ''sitesServiceURL'') then js_get opts ''sitesServiceURL''
            else case process_env E ''ZESTY_INSTANCE_LEGACY_API'' of
                   Some v \<Rightarrow> if v \<noteq> [] then JStr v else JStr (''https://svc.zesty.io/sites-service/'' @ js_to_string zuid)
                 | None \<Rightarrow> JStr (''https://svc.zesty.io/sites-service/'' @ js_to_string zuid)) \<and>
         token (inst_svc i) = tok \<and> token (legacy i) = tok"
  using assms
  by (auto simp: Instance_new_Inr Let_def instance_base_url_def legacy_base_url_def js_or_def env_val_def
           split: option.splits)

lemma Instance_new_urls_witness:
  "\<exists>i. Instance_new mock_env mock_modules (JStr ''8-abc'') (JStr ''tok'') JUndef = Inr i \<and>
       baseAPI (inst_svc i) = JStr ''https://8-abc.api.zesty.io/v1'' \<and>
       baseAPI (legacy i) = JStr ''https://svc.zesty.io/sites-service/8-abc''"
proof -
  obtain i where i: "Instance_new mock_env mock_modules (JStr ''8-abc'') (JStr ''tok'') JUndef = Inr i"
    by (simp add: Instance_new_Inr)
  from Instance_new_urls [OF i refl] i show ?thesis by (simp add: mock_env_def prop_get_def)
qed

subsection \<open>The merged endpoint table\<close>

lemma map_of_rev_append_concat:
  "map_of (rev (ys @ concat xss)) = foldl (\<lambda>m xs. m ++ map_of (rev xs)) (map_of (rev ys)) xss"
proof (induction xss arbitrary: ys)
  case Nil
  then show ?case by simp
next
  case (Cons a xss)
  from Cons.IH [of "ys @ a"] show ?case by (simp add: map_of_append)
qed

lemma map_of_rev_concat:
  "map_of (rev (concat xss)) = foldl (\<lambda>m xs. m ++ map_of (rev xs)) Map.empty xss"
  using map_of_rev_append_concat [of "[]"] by simp

text \<open>C29. \<open>this.API\<close> holds every endpoint of the five tables; where two tables
  name the same endpoint, the later in \<open>Models, Fields, Items, Settings, AuditLogs\<close>
  wins.\<close>

theorem merged_API_get:
  "js_get (merged_API M) k =
     (case (map_of (rev (spread_props (models_API M))) ++ map_of (rev (spread_props (fields_API M))) ++
            map_of (rev (spread_props (items_API M))) ++ map_of (rev (spread_props (settings_API M))) ++
            map_of (rev (spread_props (auditLogs_API M)))) k of
        Some v \<Rightarrow> v | None \<Rightarrow> JUndef)"
  by (simp add: merged_API_def prop_get_def map_of_obj_assign map_of_rev_concat)

text \<open>A name shared by two modules is silently taken from the later one:
  \<open>getModels\<close> of \<open>Models\<close> is replaced by the audit-log endpoint.\<close>

theorem merged_API_collision:
  "js_get (merged_API mock_modules) ''getModels'' = JStr ''/env/audits''"
  by code_simp

subsection \<open>formatPath\<close>

lemma lower_char_not_upper:
  "\<not> (65 \<le> (of_char (js_lower_char c) :: nat) \<and> (of_char (js_lower_char c) :: nat) \<le> 90)"
  by (auto simp: js_lower_char_def Let_def)

lemma lower_char_amp_iff: "js_lower_char c = CHR ''&'' \<longleftrightarrow> c = CHR ''&''"
proof
  assume h: "js_lower_char c = CHR ''&''"
  then have "(of_char (js_lower_char c) :: nat) = 38" by simp
  then have "(of_char c :: nat) = of_char (CHR ''&'')"
    by (auto simp: js_lower_char_def Let_def split: if_splits)
  then show "c = CHR ''&''" by (rule of_char_eqI)
qed (simp add: js_lower_char_def)

lemma slug_char_props:
  assumes "is_slug_char c"
  shows "\<not> is_js_space c" and "js_lower_char c = c" and "c \<noteq> CHR ''&''"
  using assms by (auto simp: is_slug_char_def is_js_space_def js_lower_char_def Let_def)

lemma slug_char_keeps:
  assumes "is_slug_char c"
  shows "(if is_ascii_alnum c then c else CHR ''-'') = c"
proof (cases "is_ascii_alnum c")
  case False
  with assms have "(of_char (CHR ''-'') :: nat) = of_char c"
    by (auto simp: is_slug_char_def is_ascii_alnum_def Let_def)
  with False show ?thesis by (simp add: of_char_eqI)
qed simp

lemma dropWhile_none: "\<forall>c \<in> set s. \<not> P c \<Longrightarrow> dropWhile P s = s"
  by (cases s) auto

lemma slug_fixed:
  assumes "list_all is_slug_char r"
  shows "replace_non_alnum (replace_amp (js_lower (js_trim r))) = r"
proof -
  have sp: "\<forall>c \<in> set r. \<not> is_js_space c" and sp': "\<forall>c \<in> set (rev r). \<not> is_js_space c"
    using assms slug_char_props(1) by (auto simp: list_all_iff)
  have "js_trim r = r" by (simp add: js_trim_def dropWhile_none [OF sp] dropWhile_none [OF sp'])
  moreover have "js_lower r = r"
    using assms slug_char_props(2) by (induction r) (auto simp: js_lower_def)
  moreover have "replace_amp r = r"
    using assms slug_char_props(3) by (induction r) (auto simp: replace_amp_def)
  moreover have "replace_non_alnum r = r"
    using assms slug_char_keeps by (induction r) (auto simp: replace_non_alnum_def)
  ultimately show ?thesis by simp
qed

lemma replace_amp_no_upper:
  "\<forall>c \<in> set (replace_amp (js_lower s)). \<not> (65 \<le> (of_char c :: nat) \<and> (of_char c :: nat) \<le> 90)"
  using lower_char_not_upper by (auto simp: replace_amp_def js_lower_def split: if_splits)

lemma non_alnum_slug:
  "\<forall>c \<in> set s. \<not> (65 \<le> (of_char c :: nat) \<and> (of_char c :: nat) \<le> 90) \<Longrightarrow>
   list_all is_slug_char (replace_non_alnum s)"
  by (auto simp: replace_non_alnum_def list_all_iff is_slug_char_def is_ascii_alnum_def Let_def)

lemma formatPath_Inr: "formatPath path = Inr r \<longleftrightarrow>
   (\<exists>s. path = JStr s \<and> s \<noteq> [] \<and> r = replace_non_alnum (replace_amp (js_lower (js_trim s))))"
  by (cases path) (auto simp: formatPath_def)

lemma length_replace_amp: "length (replace_amp s) = length s + 2 * length (filter (\<lambda>c. c = CHR ''&'') s)"
  by (induction s) (auto simp: replace_amp_def)

lemma amp_count_lower: "length (filter (\<lambda>c. c = CHR ''&'') (js_lower s)) = length (filter (\<lambda>c. c = CHR ''&'') s)"
  by (induction s) (auto simp: js_lower_def lower_char_amp_iff)

lemma replace_non_alnum_append [simp]:
  "replace_non_alnum (xs @ ys) = replace_non_alnum xs @ replace_non_alnum ys"
  by (simp add: replace_non_alnum_def)

lemma three_passes_one_pass:
  "replace_non_alnum (replace_amp (js_lower t)) = concat (map slug_of_char t)"
proof (induction t)
  case (Cons c t)
  have amp: "replace_non_alnum ''and'' = ''and''"
    by (simp add: replace_non_alnum_def is_ascii_alnum_def)
  have "replace_amp (js_lower (c # t)) =
          (if c = CHR ''&'' then ''and'' else [js_lower_char c]) @ replace_amp (js_lower t)"
    by (simp add: js_lower_def replace_amp_def lower_char_amp_iff)
  with Cons amp show ?case
    by (simp add: slug_of_char_def) (simp add: replace_non_alnum_def)
qed (simp add: js_lower_def replace_amp_def replace_non_alnum_def)

lemma formatPath_hello:
  "formatPath (JStr '' Hello & World! '') = Inr ''hello-and-world-''"
  by code_simp

text \<open>C31. \<open>formatPath\<close> is the one-pass reference \<open>format_slug\<close>: the three
  passes of the code (\<open>toLowerCase\<close>, the \<open>&\<close> replacement, the replacement of
  every other character that is not an ASCII letter or digit) map each character of the
  trimmed path on its own.\<close>

theorem formatPath_one_pass:
  "formatPath (JStr s) =
     (if s = [] then Inl (Error ''SDK:Instance:formatPath() missing required `path` argument'')
      else Inr (format_slug s))"
  by (simp add: formatPath_def format_slug_def three_passes_one_pass)

text \<open>C32. Every character of a formatted path is a lower-case ASCII letter, a digit or
  \<open>-\<close>.\<close>

theorem formatPath_slug:
  "formatPath path = Inr r \<Longrightarrow> list_all is_slug_char r"
  by (auto simp: formatPath_Inr intro: non_alnum_slug [OF replace_amp_no_upper])

lemma formatPath_slug_witness:
  "list_all is_slug_char ''hello-and-world-''"
  using formatPath_slug [OF formatPath_hello] .

text \<open>C33. Formatting a formatted (non-empty) path changes nothing.\<close>

theorem formatPath_idempotent:
  assumes "formatPath path = Inr r" and "r \<noteq> []"
  shows "formatPath (JStr r) = Inr r"
proof -
  have "list_all is_slug_char r"
    using assms(1) by (auto simp: formatPath_Inr intro: non_alnum_slug [OF replace_amp_no_upper])
  with assms(2) show ?thesis by (simp add: formatPath_def slug_fixed)
qed

lemma formatPath_idempotent_witness:
  "formatPath (JStr ''hello-and-world-'') = Inr ''hello-and-world-''"
  using formatPath_idempotent [OF formatPath_hello] by simp

text \<open>The length of a formatted path: the trimmed input's length, plus two for
  every \<open>&\<close> (which becomes \<open>and\<close>).\<close>

theorem formatPath_length:
  assumes "formatPath (JStr s) = Inr r"
  shows "length r = length (js_trim s) + 2 * length (filter (\<lambda>c. c = CHR ''&'') (js_trim s))"
  using assms
  by (auto simp: formatPath_def replace_non_alnum_def length_replace_amp amp_count_lower split: if_splits)

lemma formatPath_length_witness:
  "length ''hello-and-world-'' = length (js_trim '' Hello & World! '') +
     2 * length (filter (\<lambda>c. c = CHR ''&'') (js_trim '' Hello & World! ''))"
  using formatPath_length [OF formatPath_hello] .

text \<open>An example: \<open>" Hello & World! "\<close> becomes \<open>"hello-and-world-"\<close>.\<close>

theorem formatPath_example:
  "formatPath (JStr '' Hello & World! '') = Inr ''hello-and-world-''"
  by code_simp

text \<open>A path of blanks passes the guard (it is a non-empty string) and formats to
  the empty string.\<close>

theorem formatPath_blank:
  "formatPath (JStr ''   '') = Inr []"
  by (simp add: formatPath_def js_trim_def is_js_space_def js_lower_def replace_amp_def replace_non_alnum_def)

text \<open>A missing path throws the SDK's error; a value that is not a string throws
  a \<open>TypeError\<close>.\<close>

theorem formatPath_errors:
  "formatPath JUndef = Inl (Error ''SDK:Instance:formatPath() missing required `path` argument'') \<and>
   formatPath (JNum 5) = Inl (TypeError ''path.trim is not a function'')"
  by (simp add: formatPath_def)

end
