(* ===== verification/SDK.thy ===== *)
theory SDK
  imports Instance
begin

text \<open>
  The facade \<open>SDK\<close> of \<open>src/src/sdk.js\<close>.
  \<^item> \<open>sdk\<close> is the object the constructor builds; the fields that \<open>init\<close> sets are
    options, \<open>None\<close> until set.
  \<^item> \<open>SDK_new\<close> is the constructor: it reads \<open>options.authURL\<close>, then either throws
    for a missing token or calls \<open>init\<close> and drops the promise \<open>init\<close> returns. The
    model returns that promise's outcome beside the object, so that what becomes of it can
    be stated.
  \<^item> \<open>init\<close> is the \<open>async\<close> method: its body runs at once up to the verification
    request; a constructor that throws rejects its promise and leaves the fields set so far.
    \<open>bind_actions\<close> is its loop over the \<open>actions\<close> module, \<open>check_verify\<close> the
    callback that turns a verification response of any status but 200 into a rejection.
  The classes \<open>Account\<close>, \<open>Media\<close> and \<open>Auth\<close> and the \<open>actions\<close> module are not
  under \<open>src/\<close>: their constructors, \<open>verifyToken\<close> and the exports are the record
  \<open>sdk_deps\<close>. \<open>Instance\<close> is the constructor of the theory \<open>Instance\<close>.
\<close>

section \<open>The collaborators\<close>

record ('s, 'acc, 'med) sdk_deps =
  account_new :: "jsval \<Rightarrow> jsval \<Rightarrow> jsval \<Rightarrow> exn + 'acc"
  media_new :: "jsval \<Rightarrow> jsval \<Rightarrow> jsval \<Rightarrow> exn + 'med"
  verify_token :: "jsval \<Rightarrow> jsval \<Rightarrow> 's net \<Rightarrow> jsval settled \<times> 's net"
  actions :: jsval
  instance_modules :: modules

section \<open>The facade\<close>

record ('acc, 'med) sdk =
  instanceZUID :: jsval
  sdk_options :: jsval
  auth_URL :: jsval
  sdk_token :: "jsval option"
  account :: "'acc option"
  sdk_instance :: "instance_state option"
  media :: "'med option"
  action :: "props option"

text \<open>\<open>for (const funcName in actions) if (actions[funcName].bind)
  this.action[funcName] = actions[funcName].bind(this)\<close>: a function is bound (the bound
  function is named \<open>bound f\<close>); reading \<open>.bind\<close> of \<open>undefined\<close> or \<open>null\<close>
  throws; a primitive, or an object without an own \<open>bind\<close>, is skipped; an object with a
  truthy own \<open>bind\<close> has it called, which throws unless it is a function. The SDK object
  passed as \<open>this\<close> to such a call is not modelled.\<close>

fun bind_loop :: "'s env \<Rightarrow> jsval \<Rightarrow> string list \<Rightarrow> props \<Rightarrow> exn + props" where
  "bind_loop E acts [] acc = Inr acc"
| "bind_loop E acts (k # ks) acc =
     (case js_get acts k of
        JUndef \<Rightarrow> Inl (TypeError ''Cannot read properties of undefined (reading bind)'')
      | JNull \<Rightarrow> Inl (TypeError ''Cannot read properties of null (reading bind)'')
      | JObj (KFunction f) fps \<Rightarrow> bind_loop E acts ks (obj_set acc k (JObj (KFunction (''bound '' @ f)) []))
      | JObj kd ps \<Rightarrow>
          (let b = prop_get ps ''bind'' in
           if \<not> js_truthy b then bind_loop E acts ks acc
           else case b of
                  JObj (KFunction g) gps \<Rightarrow>
                    (case call_fun E g [] of
                       Inl e \<Rightarrow> Inl e
                     | Inr v \<Rightarrow> bind_loop E acts ks (obj_set acc k v))
                | _ \<Rightarrow> Inl (TypeError ''bind is not a function''))
      | _ \<Rightarrow> bind_loop E acts ks acc)"

definition bind_actions :: "'s env \<Rightarrow> jsval \<Rightarrow> exn + props" where
  "bind_actions E acts = bind_loop E acts (forin_keys acts) []"

text \<open>\<open>res => { if (res.statusCode !== 200) throw res; else return res; }\<close> chained on
  the verification promise.\<close>

definition check_verify :: "jsval settled \<Rightarrow> jsval settled" where
  "check_verify r =
     (case r of
        Fulfilled res \<Rightarrow>
          (if res = JUndef \<or> res = JNull then Rejected (TypeError ''Cannot read properties of undefined (reading statusCode)'')
           else if js_get res ''statusCode'' \<noteq> JNum 200 then Rejected (Raised res)
           else Fulfilled res)
      | Rejected e \<Rightarrow> Rejected e
      | Escaped e \<Rightarrow> Escaped e)"

definition init ::
  "('s, 'acc, 'med) sdk_deps \<Rightarrow> 's env \<Rightarrow> ('acc, 'med) sdk \<Rightarrow> jsval \<Rightarrow> 's net \<Rightarrow>
   (('acc, 'med) sdk \<times> jsval settled) \<times> 's net" where
  "init D E this tok n =
     (let this1 = this\<lparr>sdk_token := Some tok\<rparr> in
      case account_new D (instanceZUID this1) tok (sdk_options this1) of
        Inl e \<Rightarrow> ((this1, Rejected e), n)
      | Inr a \<Rightarrow>
          (let this2 = this1\<lparr>account := Some a\<rparr> in
           case Instance_new E (instance_modules D) (instanceZUID this2) tok (sdk_options this2) of
             Inl e \<Rightarrow> ((this2, Rejected e), n)
           | Inr i \<Rightarrow>
               (let this3 = this2\<lparr>sdk_instance := Some i\<rparr> in
                case media_new D (instanceZUID this3) tok (sdk_options this3) of
                  Inl e \<Rightarrow> ((this3, Rejected e), n)
                | Inr m \<Rightarrow>
                    (let this4 = this3\<lparr>media := Some m, action := Some []\<rparr> in
                     case bind_actions E (actions D) of
                       Inl e \<Rightarrow> ((this4, Rejected e), n)
                     | Inr acts \<Rightarrow>
                         (let this5 = this4\<lparr>action := Some acts\<rparr>;
                              (r, n') = verify_token D (auth_URL this5) tok n
                          in ((this5, check_verify r), n'))))))"

text \<open>The constructor. \<open>options = {}\<close> when \<open>undefined\<close>; \<open>this.options.authURL\<close>
  throws on \<open>null\<close>. The promise of \<open>init\<close> is not returned or awaited.\<close>

definition SDK_new ::
  "('s, 'acc, 'med) sdk_deps \<Rightarrow> 's env \<Rightarrow> jsval \<Rightarrow> jsval \<Rightarrow> jsval \<Rightarrow> 's net \<Rightarrow>
   (exn + (('acc, 'med) sdk \<times> jsval settled)) \<times> 's net" where
  "SDK_new D E zuid tok options n =
     (let opts = (if options = JUndef then JObj KPlain [] else options) in
      if opts = JNull then (Inl (TypeError ''Cannot read properties of null (reading authURL)''), n)
      else
        (let this = \<lparr>instanceZUID = zuid, sdk_options = opts, auth_URL = js_get opts ''authURL'',
                     sdk_token = None, account = None, sdk_instance = None, media = None, action = None\<rparr>
         in if js_truthy tok then
              (case init D E this tok n of (res, n') \<Rightarrow> (Inr res, n'))
            else (Inl (Error ''SDK:constructor() missing required `token` parameter''), n)))"

section \<open>A mock of the collaborators\<close>

text \<open>Account and media constructors that succeed, a verification that answers with
  status 401, and an \<open>actions\<close> module with one function and one string export.\<close>

definition mock_deps :: "(nat, unit, unit) sdk_deps" where
  "mock_deps =
     \<lparr>account_new = (\<lambda>z t opt. Inr ()), media_new = (\<lambda>z t opt. Inr ()),
      verify_token = (\<lambda>u t n. (Fulfilled (JObj KPlain [(''statusCode'', JNum 401)]), n\<lparr>server := Suc (server n)\<rparr>)),
      actions = JObj KPlain [(''publish'', JObj (KFunction ''publish'') []), (''VERSION'', JStr ''1.0'')],
      instance_modules = mock_modules\<rparr>"

definition sdk0 :: "(unit, unit) sdk" where
  "sdk0 = \<lparr>instanceZUID = JStr ''8-abc'', sdk_options = JObj KPlain [], auth_URL = JUndef,
           sdk_token = None, account = None, sdk_instance = None, media = None, action = None\<rparr>"

text \<open>What \<open>bind_actions\<close> promises of an \<open>actions\<close> module whose exports are
  functions, primitives, or objects without a truthy own \<open>bind\<close>: each function is bound
  under its name, nothing else is.\<close>

definition export_ok :: "jsval \<Rightarrow> bool" where
  "export_ok v =
     (case v of
        JUndef \<Rightarrow> False
      | JNull \<Rightarrow> False
      | JObj (KFunction f) ps \<Rightarrow> True
      | JObj kd ps \<Rightarrow> \<not> js_truthy (prop_get ps ''bind'')
      | _ \<Rightarrow> True)"

definition bound_of :: "jsval \<Rightarrow> jsval option" where
  "bound_of v = (case v of JObj (KFunction f) ps \<Rightarrow> Some (JObj (KFunction (''bound '' @ f)) []) | _ \<Rightarrow> None)"

section \<open>Lemmas\<close>

lemma SDK_new_truthy_token:
  assumes "options \<noteq> JNull" and "js_truthy tok"
  shows "SDK_new D E zuid tok options n =
           (case init D E \<lparr>instanceZUID = zuid, sdk_options = (if options = JUndef then JObj KPlain [] else options),
                           auth_URL = js_get (if options = JUndef then JObj KPlain [] else options) ''authURL'',
                           sdk_token = None, account = None, sdk_instance = None, media = None, action = None\<rparr>
                  tok n of (res, n') \<Rightarrow> (Inr res, n'))"
  using assms by (simp add: SDK_new_def Let_def)

text \<open>C34. Without a truthy token the constructor throws its error and no request is
  sent.\<close>

theorem SDK_new_requires_token:
  assumes "options \<noteq> JNull" and "\<not> js_truthy tok"
  shows "SDK_new D E zuid tok options n = (Inl (Error ''SDK:constructor() missing required `token` parameter''), n)"
  using assms by (simp add: SDK_new_def Let_def)

lemma SDK_new_requires_token_witness:
  "SDK_new mock_deps mock_env (JStr ''8-abc'') JUndef JUndef net0 =
     (Inl (Error ''SDK:constructor() missing required `token` parameter''), net0)"
  by (rule SDK_new_requires_token) simp_all

text \<open>C35. With a truthy token the constructor always returns an SDK object: whatever
  the collaborators throw and whatever the verification answers ends in the promise of
  \<open>init\<close>, which the constructor drops.\<close>

theorem SDK_new_never_rejects_token:
  assumes "options \<noteq> JNull" and "js_truthy tok"
  shows "\<exists>s p n'. SDK_new D E zuid tok options n = (Inr (s, p), n')"
  using assms by (simp add: SDK_new_truthy_token split: prod.split)

lemma SDK_new_never_rejects_token_witness:
  "\<exists>s p n'. SDK_new mock_deps mock_env (JStr ''8-abc'') (JStr ''tok'') JUndef net0 = (Inr (s, p), n')"
  by (rule SDK_new_never_rejects_token) simp_all

text \<open>C36. When the services are built, \<open>init\<close> sets them on the SDK object and its
  promise fulfils with the verification response if its \<open>statusCode\<close> is 200, and
  rejects with the response otherwise.\<close>

theorem init_verification_status:
  assumes "account_new D (instanceZUID this) tok (sdk_options this) = Inr a"
    and "Instance_new E (instance_modules D) (instanceZUID this) tok (sdk_options this) = Inr i"
    and "media_new D (instanceZUID this) tok (sdk_options this) = Inr m"
    and "bind_actions E (actions D) = Inr acts"
    and "verify_token D (auth_URL this) tok n = (Fulfilled res, n')"
    and "res \<noteq> JUndef" and "res \<noteq> JNull"
  shows "init D E this tok n =
           ((this\<lparr>sdk_token := Some tok, account := Some a, sdk_instance := Some i, media := Some m,
                  action := Some acts\<rparr>,
             if js_get res ''statusCode'' = JNum 200 then Fulfilled res else Rejected (Raised res)), n')"
  using assms by (simp add: init_def check_verify_def)

lemma init_verification_status_witness:
  "\<exists>s. init mock_deps mock_env sdk0 (JStr ''tok'') net0 =
         ((s, Rejected (Raised (JObj KPlain [(''statusCode'', JNum 401)]))), net0\<lparr>server := 1\<rparr>)"
proof -
  obtain i where i: "Instance_new mock_env (instance_modules mock_deps) (instanceZUID sdk0) (JStr ''tok'') (sdk_options sdk0) = Inr i"
    by (simp add: Instance_new_Inr sdk0_def)
  have acts: "bind_actions mock_env (actions mock_deps) = Inr [(''publish'', JObj (KFunction ''bound publish'') [])]"
    by (simp add: mock_deps_def bind_actions_def forin_keys_def own_keys_def is_index_def canonical_index_def
                  is_digit_def prop_get_def)
  have v: "verify_token mock_deps (auth_URL sdk0) (JStr ''tok'') net0 =
             (Fulfilled (JObj KPlain [(''statusCode'', JNum 401)]), net0\<lparr>server := 1\<rparr>)"
    by (simp add: mock_deps_def net0_def)
  from init_verification_status [OF _ i _ acts v, of "()" "()"] show ?thesis
    by (simp add: mock_deps_def prop_get_def)
qed

text \<open>C37. \<open>init\<close> sets the fields of a fresh SDK object in the order of the source:
  the token first, then \<open>account\<close>, \<open>instance\<close>, \<open>media\<close> and \<open>action\<close>, each only
  when the one before was set; a failing constructor leaves the later fields unset, and the
  token is verified (the network touched) only once every field is set.\<close>

theorem init_fields_ordered:
  assumes "sdk_token this = None" and "account this = None" and "sdk_instance this = None"
    and "media this = None" and "action this = None"
  shows "sdk_token (fst (fst (init D E this tok n))) = Some tok \<and>
         (sdk_instance (fst (fst (init D E this tok n))) \<noteq> None \<longrightarrow> account (fst (fst (init D E this tok n))) \<noteq> None) \<and>
         (media (fst (fst (init D E this tok n))) \<noteq> None \<longrightarrow> sdk_instance (fst (fst (init D E this tok n))) \<noteq> None) \<and>
         (action (fst (fst (init D E this tok n))) \<noteq> None \<longrightarrow> media (fst (fst (init D E this tok n))) \<noteq> None) \<and>
         (snd (init D E this tok n) \<noteq> n \<longrightarrow> action (fst (fst (init D E this tok n))) \<noteq> None)"
  using assms
  by (auto simp: init_def Let_def split: sum.splits prod.splits)

lemma init_fields_ordered_witness:
  "sdk_token (fst (fst (init mock_deps mock_env sdk0 (JStr ''tok'') net0))) = Some (JStr ''tok'') \<and>
   action (fst (fst (init mock_deps mock_env sdk0 (JStr ''tok'') net0))) \<noteq> None \<and>
   media (fst (fst (init mock_deps mock_env sdk0 (JStr ''tok'') net0))) \<noteq> None"
proof -
  have o: "sdk_token (fst (fst (init mock_deps mock_env sdk0 (JStr ''tok'') net0))) = Some (JStr ''tok'') \<and>
         (sdk_instance (fst (fst (init mock_deps mock_env sdk0 (JStr ''tok'') net0))) \<noteq> None \<longrightarrow>
            account (fst (fst (init mock_deps mock_env sdk0 (JStr ''tok'') net0))) \<noteq> None) \<and>
         (media (fst (fst (init mock_deps mock_env sdk0 (JStr ''tok'') net0))) \<noteq> None \<longrightarrow>
            sdk_instance (fst (fst (init mock_deps mock_env sdk0 (JStr ''tok'') net0))) \<noteq> None) \<and>
         (action (fst (fst (init mock_deps mock_env sdk0 (JStr ''tok'') net0))) \<noteq> None \<longrightarrow>
            media (fst (fst (init mock_deps mock_env sdk0 (JStr ''tok'') net0))) \<noteq> None) \<and>
         (snd (init mock_deps mock_env sdk0 (JStr ''tok'') net0) \<noteq> net0 \<longrightarrow>
            action (fst (fst (init mock_deps mock_env sdk0 (JStr ''tok'') net0))) \<noteq> None)"
    by (rule init_fields_ordered) (simp_all add: sdk0_def)
  obtain i where i: "Instance_new mock_env mock_modules (JStr ''8-abc'') (JStr ''tok'') (JObj KPlain []) = Inr i"
    by (simp add: Instance_new_Inr)
  have acts: "bind_actions mock_env (JObj KPlain [(''publish'', JObj (KFunction ''publish'') []), (''VERSION'', JStr ''1.0'')]) =
                Inr [(''publish'', JObj (KFunction ''bound publish'') [])]"
    by (simp add: bind_actions_def forin_keys_def own_keys_def is_index_def canonical_index_def
                  is_digit_def prop_get_def)
  have net: "snd (init mock_deps mock_env sdk0 (JStr ''tok'') net0) \<noteq> net0"
    by (simp add: init_def Let_def sdk0_def mock_deps_def i acts net0_def)
  from o net show ?thesis by blast
qed

text \<open>C38. A missing \<open>instanceZUID\<close> does not make the constructor throw: the
  \<open>Instance\<close> error rejects the dropped promise of \<open>init\<close>, the object has no
  \<open>instance\<close> and no \<open>media\<close>, and the token is never verified.\<close>

theorem SDK_new_swallows_instance_error:
  assumes "\<not> js_truthy zuid" and "js_truthy tok" and "options \<noteq> JNull"
    and "account_new D zuid tok (if options = JUndef then JObj KPlain [] else options) = Inr a"
  shows "\<exists>s. SDK_new D E zuid tok options n =
               (Inr (s, Rejected (Error ''SDK:Instance:constructor() missing required `instanceZUID` argument on instantiation'')), n) \<and>
             sdk_instance s = None \<and> media s = None \<and> account s = Some a"
  using assms by (simp add: SDK_new_truthy_token init_def Instance_new_def)

lemma SDK_new_swallows_instance_error_witness:
  "\<exists>s. SDK_new mock_deps mock_env JUndef (JStr ''tok'') JUndef net0 =
        (Inr (s, Rejected (Error ''SDK:Instance:constructor() missing required `instanceZUID` argument on instantiation'')), net0) \<and>
      sdk_instance s = None \<and> media s = None \<and> account s = Some ()"
  by (rule SDK_new_swallows_instance_error) (simp_all add: mock_deps_def)

lemma bind_loop_binds:
  assumes "list_all (\<lambda>k. export_ok (js_get acts k)) ks"
  shows "\<exists>ps. bind_loop E acts ks acc = Inr ps \<and>
              map_of ps = map_of acc ++ (\<lambda>k. if k \<in> set ks then bound_of (js_get acts k) else None)"
  using assms
proof (induction ks arbitrary: acc)
  case Nil
  then show ?case by simp
next
  case (Cons k ks)
  then have ok: "export_ok (js_get acts k)" and rest: "list_all (\<lambda>k. export_ok (js_get acts k)) ks" by simp_all
  show ?case
  proof (cases "\<exists>f fps. js_get acts k = JObj (KFunction f) fps")
    case True
    then obtain f fps where f: "js_get acts k = JObj (KFunction f) fps" by blast
    obtain ps where ps: "bind_loop E acts ks (obj_set acc k (JObj (KFunction (''bound '' @ f)) [])) = Inr ps"
      "map_of ps = map_of (obj_set acc k (JObj (KFunction (''bound '' @ f)) [])) ++
                     (\<lambda>k. if k \<in> set ks then bound_of (js_get acts k) else None)"
      using Cons.IH [OF rest, of "obj_set acc k (JObj (KFunction (''bound '' @ f)) [])"] by blast
    have "map_of ps x = (map_of acc ++ (\<lambda>k'. if k' \<in> set (k # ks) then bound_of (js_get acts k') else None)) x"
      for x
      using f by (cases "x = k") (simp_all add: ps(2) map_add_def bound_of_def split: option.split)
    with ps(1) f show ?thesis by (auto simp: fun_eq_iff)
  next
    case False
    then have skip: "bind_loop E acts (k # ks) acc = bind_loop E acts ks acc" and b: "bound_of (js_get acts k) = None"
      using ok by (auto simp: export_ok_def bound_of_def Let_def split: jsval.splits objkind.splits)
    obtain ps where ps: "bind_loop E acts ks acc = Inr ps"
      "map_of ps = map_of acc ++ (\<lambda>k. if k \<in> set ks then bound_of (js_get acts k) else None)"
      using Cons.IH [OF rest, of acc] by blast
    have "map_of ps x = (map_of acc ++ (\<lambda>k'. if k' \<in> set (k # ks) then bound_of (js_get acts k') else None)) x"
      for x
      using b by (cases "x = k") (simp_all add: ps(2) map_add_def split: option.split)
    with ps(1) show ?thesis unfolding skip by (auto simp: fun_eq_iff)
  qed
qed

text \<open>C39. The instance an SDK object holds is the one \<open>init\<close> built from the SDK's
  own identifier, token and options: both of its dispatchers carry the token the SDK was
  constructed with, and its base URL is the one chosen from the SDK's options, the
  environment or the per-instance default.\<close>

theorem SDK_new_instance_credentials:
  assumes "SDK_new D E zuid tok options n = (Inr (s, p), n')" and "sdk_instance s = Some i"
  shows "sdk_token s = Some tok \<and> instanceZUID s = zuid \<and> token (inst_svc i) = tok \<and> token (legacy i) = tok \<and>
         baseAPI (inst_svc i) = instance_base_url E (sdk_options s) zuid"
  using assms
  by (auto simp: SDK_new_def init_def Let_def Instance_new_Inr split: if_splits sum.splits prod.splits)

lemma SDK_new_instance_credentials_witness:
  "\<exists>s p n' i. SDK_new mock_deps mock_env (JStr ''8-abc'') (JStr ''tok'') JUndef net0 = (Inr (s, p), n') \<and>
     sdk_instance s = Some i \<and> token (inst_svc i) = JStr ''tok'' \<and>
     baseAPI (inst_svc i) = JStr ''https://8-abc.api.zesty.io/v1''"
proof -
  let ?t0 = "\<lparr>instanceZUID = JStr ''8-abc'', sdk_options = JObj KPlain [], auth_URL = JUndef,
                sdk_token = None, account = None, sdk_instance = None, media = None, action = None\<rparr>
               :: (unit, unit) sdk"
  obtain i where i: "Instance_new mock_env mock_modules (JStr ''8-abc'') (JStr ''tok'') (JObj KPlain []) = Inr i"
    by (simp add: Instance_new_Inr)
  obtain s p n' where ini: "init mock_deps mock_env ?t0 (JStr ''tok'') net0 = ((s, p), n')"
    by (metis prod.exhaust)
  have r: "SDK_new mock_deps mock_env (JStr ''8-abc'') (JStr ''tok'') JUndef net0 = (Inr (s, p), n')"
    using SDK_new_truthy_token [of JUndef "JStr ''tok''" mock_deps mock_env "JStr ''8-abc''" net0] ini
    by (simp add: prop_get_def)
  have si: "sdk_instance s = Some i" and so: "sdk_options s = JObj KPlain []"
    using ini i by (auto simp: init_def Let_def mock_deps_def split: sum.splits prod.splits)
  from SDK_new_instance_credentials [OF r si] r si so show ?thesis
    by (auto simp: instance_base_url_def js_or_def env_val_def mock_env_def prop_get_def)
qed

text \<open>C40. The \<open>action\<close> namespace of an \<open>actions\<close> module whose exports are functions,
  primitives or objects without a truthy own \<open>bind\<close>: every function export is bound
  under its key, and no other key is set.\<close>

theorem bind_actions_binds:
  assumes "list_all (\<lambda>k. export_ok (js_get acts k)) (forin_keys acts)"
  shows "\<exists>ps. bind_actions E acts = Inr ps \<and>
              (\<forall>k. map_of ps k = (if k \<in> set (forin_keys acts) then bound_of (js_get acts k) else None))"
  using bind_loop_binds [OF assms, of E "[]"] by (auto simp: bind_actions_def)

lemma bind_actions_binds_witness:
  "\<exists>ps. bind_actions mock_env (actions mock_deps) = Inr ps \<and>
        map_of ps ''publish'' = Some (JObj (KFunction ''bound publish'') []) \<and> map_of ps ''VERSION'' = None"
proof -
  have ok: "list_all (\<lambda>k. export_ok (js_get (actions mock_deps) k)) (forin_keys (actions mock_deps))"
    by (simp add: mock_deps_def forin_keys_def own_keys_def is_index_def canonical_index_def is_digit_def
                  prop_get_def export_ok_def)
  from bind_actions_binds [OF ok, of mock_env] show ?thesis
    by (auto simp: mock_deps_def forin_keys_def own_keys_def is_index_def canonical_index_def is_digit_def
                   prop_get_def bound_of_def)
qed

text \<open>The \<open>action\<close> namespace binds the function exports of \<open>actions\<close> and
  skips the others.\<close>

theorem bind_actions_example:
  "bind_actions E (JObj KPlain [(''publish'', JObj (KFunction ''publish'') []), (''VERSION'', JStr ''1.0'')]) =
     Inr [(''publish'', JObj (KFunction ''bound publish'') [])]"
  by (simp add: bind_actions_def forin_keys_def own_keys_def is_index_def canonical_index_def
                is_digit_def prop_get_def)

text \<open>\<open>null\<close> options throw a \<open>TypeError\<close> before the token is checked.\<close>

theorem SDK_new_null_options:
  "SDK_new D E zuid JUndef JNull n = (Inl (TypeError ''Cannot read properties of null (reading authURL)''), n)"
  by (simp add: SDK_new_def)

end
