(* ===== verification/Contract.thy ===== *)
theory Contract
  imports Service
begin

text \<open>
  The dispatcher's contract as the spec states it (sections 3 and 4.1), and what
  \<open>service.js\<close> does against it.
  \<^item> \<open>descriptor\<close> is the spec's request descriptor; \<open>descr_of\<close> reads it from the
    \<open>params\<close> object a caller hands to \<open>request\<close>.
  \<^item> \<open>wire\<close> is what the transport receives, abstractly: method, URL, bearer token,
    response parsing, the cookie and header authentication, and the body with its
    encoding. \<open>abs_opts\<close> reads it from the option object of the \<open>request\<close> library.
  \<^item> \<open>spec_request\<close> is the dispatcher of the spec over a transport that sees only the
    wire request: one call, a transport failure propagated unchanged, a completed response
    of any status a success whose envelope (\<open>spec_field\<close>) carries the transport status
    as \<open>statusCode\<close> and passes the other fields of the body through.
  \<^item> \<open>wf_js\<close> is the shape of a parsed JSON value: objects with distinct keys, all the
    way down; \<open>settles\<close> says a promise outcome is not an escaped exception.
\<close>

section \<open>The spec's dispatcher\<close>

record descriptor =
  d_method :: jsval
  d_payload :: "jsval option"
  d_form :: bool
  d_cookie :: bool
  d_xauth :: bool

record wire =
  w_method :: jsval
  w_url :: string
  w_bearer :: jsval
  w_json :: bool
  w_cookie :: bool
  w_xauth :: "jsval option"
  w_body :: "(bool \<times> jsval) option"

definition descr_of :: "jsval \<Rightarrow> descriptor" where
  "descr_of params =
     \<lparr>d_method = js_get params ''method'',
      d_payload = (let p = js_get params ''payload'' in if js_truthy p then Some p else None),
      d_form = js_truthy (js_get params ''isFormData''),
      d_cookie = js_truthy (js_get params ''usesCookieAuth''),
      d_xauth = js_truthy (js_get params ''usesXAuthHeader'')\<rparr>"

definition abs_opts :: "opts \<Rightarrow> wire" where
  "abs_opts req =
     \<lparr>w_method = o_method req, w_url = o_uri req, w_bearer = o_bearer req, w_json = o_json req,
      w_cookie = (''Cookie'' \<in> set (map fst (o_headers req))),
      w_xauth = map_of (o_headers req) ''X-Auth'',
      w_body = (case o_formData req of
                  Some p \<Rightarrow> Some (True, p)
                | None \<Rightarrow> (case o_body req of Some p \<Rightarrow> Some (False, p) | None \<Rightarrow> None))\<rparr>"

text \<open>The request of the spec: the URL is base URL and path concatenated, JSON parsing is
  on, the bearer token always attached, the cookie and the custom header when the flags
  ask for them, the payload as multipart form fields or as a JSON body.\<close>

definition spec_wire :: "service \<Rightarrow> string \<Rightarrow> descriptor \<Rightarrow> wire" where
  "spec_wire svc path d =
     \<lparr>w_method = d_method d, w_url = js_to_string (baseAPI svc) @ path, w_bearer = token svc,
      w_json = True, w_cookie = d_cookie d,
      w_xauth = (if d_xauth d then Some (token svc) else None),
      w_body = map_option (\<lambda>p. (d_form d, p)) (d_payload d)\<rparr>"

datatype spec_result = SFail exn | SOk int jsval

definition spec_request ::
  "('s \<Rightarrow> wire \<Rightarrow> 's \<times> (exn + response)) \<Rightarrow> service \<Rightarrow> string \<Rightarrow> descriptor \<Rightarrow> 's \<Rightarrow> spec_result \<times> 's" where
  "spec_request T svc path d s =
     (case T s (spec_wire svc path d) of
        (s', Inl e) \<Rightarrow> (SFail e, s')
      | (s', Inr resp) \<Rightarrow> (SOk (r_status resp) (r_body resp), s'))"

text \<open>The envelope of the spec: \<open>statusCode\<close> is the transport status, every other
  field is the body's.\<close>

definition spec_field :: "int \<Rightarrow> jsval \<Rightarrow> string \<Rightarrow> jsval" where
  "spec_field st body k = (if k = ''statusCode'' then JNum st else js_get body k)"

text \<open>A parsed JSON value: every object, at every depth, has distinct keys.\<close>

fun wf_js :: "jsval \<Rightarrow> bool" where
  "wf_js (JObj kd ps) = (distinct (map fst ps) \<and> list_all (\<lambda>p. wf_js (snd p)) ps)"
| "wf_js v = True"

text \<open>A promise outcome other than an exception escaped from a callback: the promise
  settles.\<close>

fun settles :: "'a settled \<Rightarrow> bool" where
  "settles (Escaped e) = False"
| "settles (Fulfilled v) = True"
| "settles (Rejected e) = True"

section \<open>Lemmas\<close>

lemma build_opts_wire:
  assumes "build_opts E svc uri params = Inr req"
  shows "abs_opts req = spec_wire svc (js_to_string uri) (descr_of params)"
  using assms
  by (auto simp: build_opts_def base_opts_def add_xauth_def add_payload_def abs_opts_def
                 spec_wire_def descr_of_def Let_def split: if_splits sum.splits)

lemma map_of_rev_map_keys:
  "map_of (rev (map (\<lambda>k. (k, f k)) ks)) k = (if k \<in> set ks then Some (f k) else None)"
  by (simp add: rev_map map_of_map_keys)

lemma enrich_spec_field:
  assumes "kd \<noteq> KArray" and "''statusCode'' \<notin> fst ` set ps"
  shows "js_get (enrich st (JObj kd ps)) k = spec_field st (JObj kd ps) k"
proof -
  have get: "js_get (JObj kd qs) k = prop_get qs k" for qs
    using assms(1) by (cases kd) simp_all
  show ?thesis
    using assms(2)
    by (auto simp: enrich_def get prop_get_def map_of_obj_assign map_add_def map_of_rev_map_keys
                   spec_field_def split: option.splits dest: map_of_SomeD intro: rev_image_eqI)
qed

text \<open>C3. Refinement: for a caller's \<open>params\<close> object with no formatter, over a transport
  that sees only the wire request and answers with plain JSON objects that have no
  \<open>statusCode\<close> of their own, \<open>request\<close> implements the spec's dispatcher: it sends
  exactly the spec's request, leaves the server where the spec's call leaves it, rejects
  with the transport's error, and fulfils with an envelope whose every field is the
  spec's.\<close>

theorem request_refines_spec:
  assumes T: "transport E = (\<lambda>s req. T s (abs_opts req))"
    and p: "params \<noteq> JUndef" "params \<noteq> JNull" "\<not> js_truthy (js_get params ''responseFormatter'')"
    and b: "build_opts E svc uri params = Inr req"
    and plain: "\<forall>s w s' resp. T s w = (s', Inr resp) \<longrightarrow>
                  (\<exists>ps. r_body resp = JObj KPlain ps \<and> ''statusCode'' \<notin> fst ` set ps)"
  shows "abs_opts req = spec_wire svc (js_to_string uri) (descr_of params) \<and>
         sent (snd (request E svc uri params n)) = sent n @ [req] \<and>
         server (snd (request E svc uri params n)) =
           snd (spec_request T svc (js_to_string uri) (descr_of params) (server n)) \<and>
         (case fst (spec_request T svc (js_to_string uri) (descr_of params) (server n)) of
            SFail e \<Rightarrow> fst (request E svc uri params n) = Rejected e
          | SOk st body \<Rightarrow> (\<exists>v. fst (request E svc uri params n) = Fulfilled v \<and>
                                (\<forall>k. js_get v k = spec_field st body k)))"
proof -
  have w: "abs_opts req = spec_wire svc (js_to_string uri) (descr_of params)"
    by (rule build_opts_wire [OF b])
  obtain s' r where tr: "T (server n) (spec_wire svc (js_to_string uri) (descr_of params)) = (s', r)"
    by (cases "T (server n) (spec_wire svc (js_to_string uri) (descr_of params))")
  have tr': "transport E (server n) req = (s', r)" by (simp add: T w tr)
  show ?thesis
  proof (cases r)
    case (Inl e)
    with p b tr tr' w show ?thesis by (simp add: request_def spec_request_def)
  next
    case (Inr resp)
    with plain tr obtain ps where ps: "r_body resp = JObj KPlain ps" "''statusCode'' \<notin> fst ` set ps"
      by blast
    have "\<forall>k. js_get (enrich (r_status resp) (r_body resp)) k = spec_field (r_status resp) (r_body resp) k"
      using enrich_spec_field [of KPlain ps] ps by simp
    with Inr p b tr tr' w show ?thesis by (simp add: request_def spec_request_def respond_def)
  qed
qed

lemma request_refines_spec_witness:
  "\<exists>req. build_opts mock_env mock_service (JStr ''/models'') (with_method (JObj KPlain []) ''GET'') = Inr req \<and>
     abs_opts req = spec_wire mock_service ''/models'' (descr_of (with_method (JObj KPlain []) ''GET'')) \<and>
     sent (snd (request mock_env mock_service (JStr ''/models'') (with_method (JObj KPlain []) ''GET'') net0)) = [req] \<and>
     (\<exists>v. fst (request mock_env mock_service (JStr ''/models'') (with_method (JObj KPlain []) ''GET'') net0) = Fulfilled v \<and>
          js_get v ''statusCode'' = JNum 200 \<and> js_get v ''data'' = js_get mock_body ''data'')"
proof -
  let ?T = "\<lambda>(s::nat) (w::wire). (Suc s, Inr \<lparr>r_status = 200, r_body = mock_body\<rparr> :: exn + response)"
  let ?p = "with_method (JObj KPlain []) ''GET''"
  obtain req where b: "build_opts mock_env mock_service (JStr ''/models'') ?p = Inr req"
    by (simp add: build_opts_no_cookie with_method_def obj_assign_def own_keys_def prop_get_def)
  have T: "transport mock_env = (\<lambda>s req. ?T s (abs_opts req))" by (simp add: mock_env_def)
  have p: "?p \<noteq> JUndef" "?p \<noteq> JNull" "\<not> js_truthy (js_get ?p ''responseFormatter'')"
    by (simp_all add: with_method_def obj_assign_def own_keys_def prop_get_def)
  have plain: "\<forall>s w s' resp. ?T s w = (s', Inr resp) \<longrightarrow>
                  (\<exists>ps. r_body resp = JObj KPlain ps \<and> ''statusCode'' \<notin> fst ` set ps)"
    by (auto simp: mock_body_def)
  from request_refines_spec [OF T p b plain, of net0] b show ?thesis
    by (auto simp: spec_request_def spec_field_def net0_def)
qed

lemma wf_prop_get: "list_all (\<lambda>p. wf_js (snd p)) ps \<Longrightarrow> wf_js (prop_get ps k)"
  by (cases "map_of ps k") (auto simp: prop_get_def list_all_iff dest!: map_of_SomeD)

lemma wf_spread_props: "wf_js v \<Longrightarrow> list_all (\<lambda>p. wf_js (snd p)) (spread_props v)"
  by (cases v) (auto simp: list_all_iff wf_prop_get)

lemma enrich_wf:
  "wf_js body \<Longrightarrow> wf_js (enrich st body) \<and> has_own (enrich st body) ''statusCode''"
  using distinct_obj_assign [of "[(''statusCode'', JNum st)]" "spread_props body"]
        keys_obj_assign [of "[(''statusCode'', JNum st)]" "spread_props body"]
  by (auto simp: enrich_def wf_spread_props)

text \<open>C10. The type of what a request resolves to: without a formatter, over a transport
  that answers with parsed JSON values, the promise is fulfilled only with a plain
  object with distinct keys at every depth that owns a \<open>statusCode\<close>.\<close>

theorem request_envelope_type:
  assumes "\<not> js_truthy (js_get params ''responseFormatter'')"
    and "\<forall>s req s' resp. transport E s req = (s', Inr resp) \<longrightarrow> wf_js (r_body resp)"
    and "fst (request E svc uri params n) = Fulfilled v"
  shows "wf_js v \<and> has_own v ''statusCode'' \<and> (\<exists>ps. v = JObj KPlain ps)"
proof -
  obtain req s' resp where
    b: "build_opts E svc uri params = Inr req" and
    tr: "transport E (server n) req = (s', Inr resp)" and
    v: "v = enrich (r_status resp) (r_body resp)"
    using assms(1,3)
    by (auto simp: request_def respond_def split: if_splits sum.splits prod.splits)
  with assms(2) enrich_wf [of "r_body resp" "r_status resp"] show ?thesis
    by (auto simp: enrich_def)
qed

lemma request_envelope_type_witness:
  "fst (request mock_env mock_service (JStr ''/models'') (JObj KPlain []) net0) = Fulfilled (enrich 200 mock_body) \<and>
   wf_js (enrich 200 mock_body) \<and> has_own (enrich 200 mock_body) ''statusCode''"
proof -
  have f: "\<not> js_truthy (js_get (JObj KPlain []) ''responseFormatter'')" by (simp add: prop_get_def)
  have t: "\<forall>s req s' resp. transport mock_env s req = (s', Inr resp) \<longrightarrow> wf_js (r_body resp)"
    by (auto simp: mock_env_def mock_body_def)
  have r: "fst (request mock_env mock_service (JStr ''/models'') (JObj KPlain []) net0) = Fulfilled (enrich 200 mock_body)"
    by (simp add: request_def build_opts_no_cookie respond_def prop_get_def mock_env_def)
  from request_envelope_type [OF f t r] r show ?thesis by simp
qed

text \<open>A top-level JSON array is not passed through: spreading it into the envelope makes
  a plain object of its elements, and its \<open>length\<close> is lost.\<close>

lemma enrich_array_body:
  "enrich 200 (JObj KArray [(''0'', JStr ''a'')]) =
     JObj KPlain [(''statusCode'', JNum 200), (''0'', JStr ''a'')] \<and>
   js_get (enrich 200 (JObj KArray [(''0'', JStr ''a'')])) ''length'' = JUndef \<and>
   js_get (JObj KArray [(''0'', JStr ''a'')]) ''length'' = JNum 1"
  by code_simp

text \<open>C11. Liveness of a request: when \<open>params\<close> has no formatter, or one that is a
  function returning on every argument, the promise \<open>request\<close> returns always settles,
  fulfilled or rejected, whatever the transport and the cookie serializer do.\<close>

theorem request_settles:
  assumes "\<not> js_truthy (js_get params ''responseFormatter'') \<or>
           (\<exists>g fps. js_get params ''responseFormatter'' = JObj (KFunction g) fps \<and>
                    (\<forall>args. \<exists>v. call_fun E g args = Inr v))"
  shows "settles (fst (request E svc uri params n))"
  using assms
  by (auto simp: request_def respond_def split: sum.splits prod.splits) (metis Inl_Inr_False)

lemma request_settles_witness:
  "settles (fst (request (mock_env\<lparr>call_fun := (\<lambda>g args. Inr (JStr ''formatted''))\<rparr>) mock_service
              (JStr ''/models'') (JObj KPlain [(''responseFormatter'', JObj (KFunction ''fmt'') [])]) net0))"
proof -
  have "\<not> js_truthy (js_get (JObj KPlain [(''responseFormatter'', JObj (KFunction ''fmt'') [])]) ''responseFormatter'') \<or>
        (\<exists>g fps. js_get (JObj KPlain [(''responseFormatter'', JObj (KFunction ''fmt'') [])]) ''responseFormatter'' =
                   JObj (KFunction g) fps \<and>
                 (\<forall>args. \<exists>v. call_fun (mock_env\<lparr>call_fun := (\<lambda>g args. Inr (JStr ''formatted''))\<rparr>) g args = Inr v))"
    by (simp add: prop_get_def)
  then show ?thesis by (rule request_settles)
qed

text \<open>The other side: a truthy formatter that is not a function throws inside the
  callback of the \<open>request\<close> library once a response has come, and the promise never
  settles.\<close>

lemma request_formatter_escapes:
  assumes "params \<noteq> JUndef" and "params \<noteq> JNull"
    and "js_truthy (js_get params ''responseFormatter'')" and "\<not> js_callable (js_get params ''responseFormatter'')"
    and "build_opts E svc uri params = Inr req" and "transport E (server n) req = (s', Inr resp)"
  shows "\<not> settles (fst (request E svc uri params n))"
  using assms
  by (auto simp: request_def respond_def js_callable_def split: jsval.splits objkind.splits)




end
