(* ===== verification/Session.thy ===== *)
theory Session
  imports Service
begin

text \<open>
  A client's use of one dispatcher over time. \<open>service.js\<close> keeps no state between calls
  but the \<open>params\<close> objects it writes into; the network it drives does: each call of a
  verb method may append one request to the list of requests sent.
  \<^item> \<open>verb\<close> names the five verb methods of \<open>Service\<close>, \<open>verb_method\<close> calls
    one of them; \<open>verb_name\<close> and \<open>verb_default\<close> are the method names and the
    expected statuses the spec gives them.
  \<^item> \<open>session_step\<close> is one call of a verb method with any path and any \<open>params\<close>,
    \<open>reachable_net\<close> the networks a client reaches from one with nothing sent, and
    \<open>run_calls\<close> a client that awaits a list of calls one after the other.
  \<^item> \<open>req_ok\<close> is what the spec promises of every request the dispatcher sends: the
    service's token as bearer, a URI under the service's base URL, JSON parsing, one of the
    five verbs as method, and no header but \<open>X-Auth\<close> with the token and \<open>Cookie\<close> with
    the serialized token.
\<close>

section \<open>The verbs\<close>

datatype verb = GET | DELETE | PUT | POST | PATCH

fun verb_name :: "verb \<Rightarrow> string" where
  "verb_name GET = ''GET''"
| "verb_name DELETE = ''DELETE''"
| "verb_name PUT = ''PUT''"
| "verb_name POST = ''POST''"
| "verb_name PATCH = ''PATCH''"

text \<open>The expected statuses of the spec: 201 for POST, 200 for the other verbs.\<close>

fun verb_default :: "verb \<Rightarrow> int" where
  "verb_default POST = 201"
| "verb_default GET = 200"
| "verb_default DELETE = 200"
| "verb_default PUT = 200"
| "verb_default PATCH = 200"

fun verb_method ::
  "verb \<Rightarrow> 's env \<Rightarrow> service \<Rightarrow> jsval \<Rightarrow> jsval \<Rightarrow> 's net \<Rightarrow> (jsval \<times> jsval settled) \<times> 's net" where
  "verb_method GET = getRequest"
| "verb_method DELETE = deleteRequest"
| "verb_method PUT = putRequest"
| "verb_method POST = postRequest"
| "verb_method PATCH = patchRequest"

section \<open>Sessions\<close>

datatype call = Call verb jsval jsval

fun run_calls :: "'s env \<Rightarrow> service \<Rightarrow> call list \<Rightarrow> 's net \<Rightarrow> (jsval \<times> jsval settled) list \<times> 's net" where
  "run_calls E svc [] n = ([], n)"
| "run_calls E svc (Call v uri params # cs) n =
     (case verb_method v E svc uri params n of
        (r, n') \<Rightarrow> (case run_calls E svc cs n' of (rs, n'') \<Rightarrow> (r # rs, n'')))"

inductive session_step :: "'s env \<Rightarrow> service \<Rightarrow> 's net \<Rightarrow> 's net \<Rightarrow> bool" for E svc where
  call: "n' = snd (verb_method v E svc uri params n) \<Longrightarrow> session_step E svc n n'"

inductive reachable_net :: "'s env \<Rightarrow> service \<Rightarrow> 's net \<Rightarrow> bool" for E svc where
  start: "sent n = [] \<Longrightarrow> reachable_net E svc n"
| step: "reachable_net E svc n \<Longrightarrow> session_step E svc n n' \<Longrightarrow> reachable_net E svc n'"

inductive_cases session_stepE: "session_step E svc n n'"

section \<open>What every request carries\<close>

definition header_ok :: "'s env \<Rightarrow> service \<Rightarrow> string \<times> jsval \<Rightarrow> bool" where
  "header_ok E svc h =
     (case h of (name, v) \<Rightarrow>
        (name = ''X-Auth'' \<and> v = token svc) \<or>
        (name = ''Cookie'' \<and>
           (case v of JStr c \<Rightarrow> cookie_serialize E (cookieName svc) (token svc) = Inr c | _ \<Rightarrow> False)))"

definition req_ok :: "'s env \<Rightarrow> service \<Rightarrow> opts \<Rightarrow> bool" where
  "req_ok E svc req \<longleftrightarrow>
     o_bearer req = token svc \<and> o_json req \<and>
     take (length (js_to_string (baseAPI svc))) (o_uri req) = js_to_string (baseAPI svc) \<and>
     list_ex (\<lambda>v. o_method req = JStr (verb_name v)) [GET, DELETE, PUT, POST, PATCH] \<and>
     list_all (header_ok E svc) (o_headers req)"

definition sent_ok :: "'s env \<Rightarrow> service \<Rightarrow> 's net \<Rightarrow> bool" where
  "sent_ok E svc n = list_all (req_ok E svc) (sent n)"

section \<open>Lemmas\<close>

lemma verb_method_request: "verb_method v = verb_request (verb_name v) (verb_default v)"
  by (cases v)
     (simp_all add: getRequest_def deleteRequest_def putRequest_def postRequest_def patchRequest_def)

lemma build_opts_headers_ok:
  assumes "build_opts E svc uri params = Inr req"
  shows "list_all (header_ok E svc) (o_headers req)"
  using assms
  by (auto simp: build_opts_def base_opts_def add_xauth_def add_payload_def header_ok_def Let_def
           split: if_splits sum.splits)

lemma build_opts_req_ok:
  assumes "build_opts E svc uri params = Inr req" and "js_get params ''method'' = JStr (verb_name v)"
  shows "req_ok E svc req"
proof -
  have "list_ex (\<lambda>w. JStr (verb_name v) = JStr (verb_name w)) [GET, DELETE, PUT, POST, PATCH]"
    by (cases v) simp_all
  with build_opts_fields [OF assms(1)] build_opts_headers_ok [OF assms(1)] assms(2)
  show ?thesis by (simp add: req_ok_def)
qed

lemma verb_method_sent:
  "sent (snd (verb_method v E svc uri params n)) = sent n \<or>
   (\<exists>req. sent (snd (verb_method v E svc uri params n)) = sent n @ [req] \<and> req_ok E svc req \<and>
          o_method req = JStr (verb_name v))"
proof (cases "with_success_code (if params = JUndef then JObj KPlain [] else params) (verb_default v)")
  case (Inl e)
  then show ?thesis by (simp add: verb_method_request verb_request_def)
next
  case (Inr p')
  show ?thesis
  proof (cases "build_opts E svc uri (with_method p' (verb_name v))")
    case (Inl e)
    with Inr show ?thesis by (simp add: verb_method_request verb_request_def split_beta request_sent)
  next
    case (Inr req)
    with build_opts_req_ok [OF Inr] build_opts_fields [OF Inr] \<open>with_success_code _ _ = Inr p'\<close> show ?thesis
      by (simp add: verb_method_request verb_request_def split_beta request_sent)
  qed
qed

lemma session_step_sent_ok:
  assumes "session_step E svc n n'" and "sent_ok E svc n"
  shows "sent_ok E svc n'"
  using assms(1)
proof cases
  case (call v uri params)
  from verb_method_sent [of v E svc uri params n] assms(2) show ?thesis
    by (auto simp: call sent_ok_def)
qed

lemma run_calls_snd:
  "snd (run_calls E svc (Call v uri params # cs) n) = snd (run_calls E svc cs (snd (verb_method v E svc uri params n)))"
  by (simp split: prod.split)

lemma run_calls_reachable:
  "reachable_net E svc n \<Longrightarrow> reachable_net E svc (snd (run_calls E svc cs n))"
proof (induction cs arbitrary: n)
  case (Cons c cs)
  obtain v uri params where c: "c = Call v uri params" by (cases c)
  have "reachable_net E svc (snd (verb_method v E svc uri params n))"
    by (rule reachable_net.step [OF Cons.prems session_step.call [OF refl]])
  then show ?case unfolding c run_calls_snd by (rule Cons.IH)
qed simp

text \<open>C4. The invariant of a client's session: in every network a client reaches from one
  with nothing sent, by any sequence of verb calls with any paths and \<open>params\<close>, every
  request sent carries the service's token as bearer, a URI under the service's base URL,
  JSON parsing, one of the five verbs as method, and no header but \<open>X-Auth\<close> with the
  token and \<open>Cookie\<close> with the serialized token.\<close>

theorem reachable_sent_ok: "reachable_net E svc n \<Longrightarrow> sent_ok E svc n"
proof (induction rule: reachable_net.induct)
  case (start n)
  then show ?case by (simp add: sent_ok_def)
next
  case (step n n')
  then show ?case by (blast intro: session_step_sent_ok)
qed

lemma reachable_sent_ok_witness:
  "let n = snd (run_calls mock_env mock_service
                  [Call GET (JStr ''/models'') JUndef,
                   Call POST (JStr ''/models'') (JObj KPlain [(''usesXAuthHeader'', JBool True)])] net0)
   in reachable_net mock_env mock_service n \<and> sent_ok mock_env mock_service n"
proof -
  have r: "reachable_net mock_env mock_service (snd (run_calls mock_env mock_service
                  [Call GET (JStr ''/models'') JUndef,
                   Call POST (JStr ''/models'') (JObj KPlain [(''usesXAuthHeader'', JBool True)])] net0))"
    by (rule run_calls_reachable, rule reachable_net.start) (simp add: net0_def)
  from r reachable_sent_ok [OF r] show ?thesis by (simp add: Let_def)
qed

text \<open>C14. Each verb method writes the spec's default status into a \<open>params\<close> object
  that has no own \<open>successCode\<close>: 201 for POST, 200 for GET, DELETE, PUT and PATCH; a
  caller's own value is kept.\<close>

theorem verb_method_default:
  "fst (fst (verb_method v E svc uri (JObj kd ps) n)) =
     JObj kd (if ''successCode'' \<in> fst ` set ps then ps else obj_set ps ''successCode'' (JNum (verb_default v)))"
  by (simp add: verb_method_request verb_request_obj Let_def split_beta)


end
