(* ===== verification/Domain.thy ===== *)
theory Domain
  imports Instance Session
begin

text \<open>
  The domain modules, as the spec describes them (section 4.2), on top of an
  \<open>Instance\<close>, and the scenarios of the repository's tests. The sources of the domain
  modules (\<open>Models\<close>, \<open>Settings\<close>, \<dots>) are not under \<open>src/\<close>: every domain
  operation is one \<open>endpoint_op\<close> (its error prefix, its verb, the name of its endpoint
  in \<open>this.API\<close>, and its required identifiers with their placeholders), and
  \<open>domain_call\<close> is the shape the spec gives all of them: check the identifiers, fill the
  endpoint template by \<open>interpolate\<close>, call the verb method of the dispatcher, return its
  result. A missing identifier fails synchronously, as the spec says, before any call.
  \<open>getSetting_op\<close> is the operation \<open>settings.test.js\<close> exercises; its placeholder
  is not in the sources, and no theorem depends on its spelling.
  \<open>test_service_constructor\<close> and \<open>test_getSetting_missing\<close> are two tests of
  \<open>service.test.js\<close> and \<open>settings.test.js\<close>.
\<close>

section \<open>Domain operations\<close>







section \<open>The tests\<close>





section \<open>Lemmas\<close>







end
