(* ===== verification/Spec2Isabelle.thy ===== *)
theory Spec2Isabelle
  imports SDK Contract Domain
begin

text \<open>
  A verification development of the Node SDK of \<open>andosmith/node-sdk\<close>, a client
  library for a content-management API. Every call of the SDK goes through one request
  dispatcher, \<open>Service\<close> (\<open>src/src/services/service.js\<close>); the \<open>Instance\<close> class
  (\<open>src/src/services/instance/index.js\<close>) is a \<open>Service\<close> with the endpoint tables
  of its mixins; the facade \<open>SDK\<close> (\<open>src/src/sdk.js\<close>) builds the services from an
  instance identifier and a token and verifies the token.

  \<^bold>\<open>Theories.\<close>
  \<^item> \<open>JS_Prelude\<close>: the JavaScript values the program handles (\<open>jsval\<close>: objects as
    property lists in creation order, arrays as objects with index keys), thrown values
    (\<open>exn\<close>), promise outcomes (\<open>settled\<close>), and the abstract operations of
    ECMAScript the code relies on: ToBoolean, ToString, property lookup,
    \<open>hasOwnProperty\<close>, property assignment, OrdinaryOwnPropertyKeys and object spread.
  \<^item> \<open>JS_String\<close>: \<open>indexOf\<close>, \<open>replace\<close> with a string pattern (first occurrence,
    \<open>$\<close>-patterns of GetSubstitution, replacement functions), \<open>trim\<close>,
    \<open>toLowerCase\<close> and the two global regular-expression replacements of
    \<open>formatPath\<close>, on Latin-1 code units.
  \<^item> \<open>Service\<close>: the dispatcher: constructor, \<open>interpolate\<close>, the five verb methods
    and \<open>request\<close>. The \<open>request\<close> and \<open>cookie\<close> libraries, the process
    environment and the caller's functions are the record \<open>'s env\<close>; the network is
    the record \<open>'s net\<close> of a server state and the list of requests sent.

  \<^item> \<open>Session\<close>: a client's use of one dispatcher over time: the datatype
    \<open>verb\<close> of the five verb methods with \<open>verb_method\<close>, the spec's default statuses
    \<open>verb_default\<close>, the step relation \<open>session_step\<close> (one verb call with any path
    and \<open>params\<close>), the reachable networks \<open>reachable_net\<close>, sequences of awaited
    calls \<open>run_calls\<close>, and \<open>req_ok\<close>, what every request sent must carry.
  \<^item> \<open>Contract\<close>: the dispatcher's contract as the spec states it (sections 3 and
    4.1): the request descriptor (\<open>descriptor\<close>, read from \<open>params\<close> by
    \<open>descr_of\<close>), the wire request (\<open>wire\<close>, read from the library options by
    \<open>abs_opts\<close>), the spec's dispatcher \<open>spec_request\<close> and envelope
    \<open>spec_field\<close>; the shape of parsed JSON \<open>wf_js\<close>; \<open>settles\<close>.
  \<^item> \<open>Instance\<close>: the class of \<open>index.js\<close>: the mixin composition
    (\<open>mix_with\<close>, \<open>class_extends\<close>, \<open>resolve_method\<close>, \<open>Instance_class\<close>), the
    constructor \<open>Instance_new\<close> (the guard on \<open>instanceZUID\<close>, the base URLs from the
    options, the environment or the default, the merged endpoint table \<open>merged_API\<close>)
    and \<open>formatPath\<close>, with the one-pass reference \<open>format_slug\<close>. The endpoint
    tables of the mixin modules are the record \<open>modules\<close>.
  \<^item> \<open>Domain\<close>: the domain operations as the spec describes them (section 4.2),
    since their sources are not under \<open>src/\<close>: an \<open>endpoint_op\<close> and
    \<open>domain_call\<close> (check the identifiers, fill the template by \<open>interpolate\<close>, call
    the verb method of the instance's dispatcher); \<open>getSetting_op\<close>; and two tests of
    the repository, \<open>test_service_constructor\<close> (\<open>service.test.js\<close>) and
    \<open>test_getSetting_missing\<close> (\<open>settings.test.js\<close>).
  \<^item> \<open>SDK\<close>: the facade of \<open>sdk.js\<close>: \<open>SDK_new\<close>, the \<open>async\<close> method \<open>init\<close>,
    its loop \<open>bind_actions\<close> over the \<open>actions\<close> module and the verification callback
    \<open>check_verify\<close>. \<open>Account\<close>, \<open>Media\<close>, \<open>Auth.verifyToken\<close> and \<open>actions\<close> are the
    record \<open>sdk_deps\<close>.

  \<^bold>\<open>What is shown.\<close>
  \<^item> \<open>request\<close>: every response, whatever its HTTP status, fulfils the promise with the
    body enriched by the status; a \<open>statusCode\<close> of the body wins over the transport's;
    transport errors and a throwing \<open>cookie.serialize\<close> reject; at most one request is
    sent; the options carry the \<open>X-Auth\<close> header only when asked for and the payload as
    \<open>json\<close> or \<open>formData\<close>; \<open>successCode\<close> is never read.
  \<^item> Refinement: over a transport that sees only the wire request and answers with plain
    JSON objects without a \<open>statusCode\<close>, \<open>request\<close> implements \<open>spec_request\<close>:
    the same wire request, server state, error, and envelope field by field.
  \<^item> Type and liveness: the value a request resolves to without a formatter is a plain
    object with distinct keys at every depth that owns \<open>statusCode\<close>; without a
    formatter, or with one that returns, the promise always settles; a function formatter
    decides the outcome (its result fulfils, its exception escapes and the promise never
    settles).
  \<^item> Sessions: every request of every reachable network carries the service's
    credentials (an invariant by rule induction over \<open>reachable_net\<close>); a sequence of
    calls only appends, at most one request per call.
  \<^item> The verb methods: each writes its default, 201 for POST and 200 otherwise, into
    the caller's \<open>params\<close> object, so that the object reused for a \<open>POST\<close> after a
    \<open>GET\<close> keeps 200; the verb overrides a \<open>method\<close> of \<open>params\<close>; \<open>null\<close> or a
    primitive as \<open>params\<close> rejects with a \<open>TypeError\<close> before any call.
  \<^item> \<open>interpolate\<close>: a template of literal text and distinct placeholders, in the
    order of the replacement object and opened by a character that neither the text nor
    the values contain, is filled exactly (\<open>interp_template\<close>, \<open>interp_fill\<close>, the
    spec's example an instance); outside these conditions only the first occurrence of a
    placeholder is replaced, \<open>$\<close>-patterns in a value are expanded and a value containing
    a later placeholder is replaced again; the loop always ends with a string when no
    value is a function.
  \<^item> The domain layer: a missing identifier fails with the error naming it (the message
    \<open>settings.test.js\<close> expects) and sends nothing; otherwise at most one authenticated
    request with the operation's verb goes to the instance's base URL; the end-to-end
    scenario of the spec resolves to \<open>{statusCode: 200, data: [{ZUID: "1"}]}\<close>.
  \<^item> The constructors: the exact conditions of the errors of \<open>Service\<close> and
    \<open>Instance\<close>, the fields they set, and the base URLs chosen.
  \<^item> The mixins: a method resolves to the class's own table, then to the last mixin
    that defines it, then to the superclass; the merged API table lets a later module's
    endpoint override an earlier one's.
  \<^item> \<open>formatPath\<close>: the three passes of the code equal the one-pass reference
    \<open>format_slug\<close>; the result is a slug of lower-case letters, digits and hyphens,
    and the function is idempotent on its non-empty results.
  \<^item> \<open>SDK\<close>: a missing token throws; a failing verification, a failing \<open>Instance\<close>
    constructor or any rejection of \<open>init\<close> never reaches the caller of the constructor;
    the \<open>action\<close> namespace binds exactly the function exports; the instance an SDK
    object holds dispatches with the SDK's token and the base URL chosen from its options;
    \<open>init\<close> sets the fields in the order of the source and verifies the token only once
    every service is built.

  \<^bold>\<open>Bounds and fuel.\<close> Every loop of the code runs over a finite list of keys, so
  each is structural recursion (\<open>interpolate_loop\<close>, \<open>bind_loop\<close>) and needs no fuel.
  Array indices are bounded by \<open>2^32 - 1\<close> as in ECMAScript (\<open>canonical_index\<close>).

  \<^bold>\<open>Not modelled.\<close> The \<open>request\<close> and \<open>cookie\<close> libraries beyond their
  interface; the sources of the domain modules, which are not under \<open>src/\<close>: their
  common shape is modelled from the spec (\<open>domain_call\<close>), but the individual
  \<open>Media\<close> and \<open>Account\<close> operations are not, since neither the sources nor the spec
  give their endpoints, arguments or payload fields, and the media tests assert only on
  data a live server returns; code units beyond Latin-1;
  the prototype chain of plain objects (only own properties are read); thenable adoption
  of promises; \<open>this\<close> inside the functions the \<open>actions\<close> module exports.

  \<^bold>\<open>Coverage.\<close> Every function and method under \<open>src/\<close> that computes or
  changes state is a definition of the development. The session theorems hold for any
  \<open>service\<close>, so they cover the legacy service of an \<open>Instance\<close> as well as its main
  one. The code left unmapped is the \<open>"use strict"\<close> lines, comments, the \<open>require\<close>
  of \<open>./service\<close> and of \<open>./services/instance\<close>, and \<open>module.exports.Auth = Auth\<close>,
  none of which computes anything. What more could be modelled lies outside \<open>src/\<close>
  (see Not modelled).
\<close>

end
